theory Spec2Isabelle
  imports Complex_Main "HOL-Library.Char_ord" "HOL-Library.List_Lexorder"
    "HOL-Library.Product_Lexorder" "HOL-Library.Sublist"
begin

section \<open>Values shared by the subsystems\<close>

text \<open>
  JSON blobs (queue payloads, command parameters and results, event details) are kept as
  values: \<open>json.dumps\<close> followed by \<open>json.loads\<close> is the identity on them. A Python
  \<open>dict\<close> with string keys is an association list in insertion order.
\<close>

datatype json =
    JNull
  | JBool bool
  | JInt int
  | JStr string
  | JList "json list"
  | JObj "(string \<times> json) list"

type_synonym json_dict = "(string \<times> json) list"

text \<open>\<open>d[k] = v\<close> on a dict: an existing key keeps its place, a new key goes last.\<close>

fun dict_set :: "(string \<times> 'a) list \<Rightarrow> string \<Rightarrow> 'a \<Rightarrow> (string \<times> 'a) list" where
  "dict_set [] k v = [(k, v)]"
| "dict_set ((k', v') # d) k v =
     (if k' = k then (k, v) # d else (k', v') # dict_set d k v)"

text \<open>Python truthiness of an \<open>Optional[str]\<close> and of an \<open>Optional[Dict]\<close>.\<close>

fun truthy_str :: "string option \<Rightarrow> bool" where
  "truthy_str None = False"
| "truthy_str (Some s) = (s \<noteq> [])"

fun truthy_dict :: "json_dict option \<Rightarrow> bool" where
  "truthy_dict None = False"
| "truthy_dict (Some d) = (d \<noteq> [])"

section \<open>Local store (core/database.py)\<close>

text \<open>One row of table \<open>offline_queue\<close>. Timestamps are the text SQLite stores.\<close>

record queue_item =
  row_id :: int
  queue_type :: string
  payload :: json_dict
  priority :: int
  created_at :: string
  retry_count :: int
  max_retries :: int
  status :: string

record security_event =
  se_id :: int
  event_type :: string
  severity :: string
  description :: string
  file_path :: "string option"
  process_name :: "string option"
  details :: "json_dict option"
  se_timestamp :: string
  resolved :: bool

record audit_entry =
  action :: string
  resource :: "string option"
  audit_details :: "json_dict option"
  audit_timestamp :: string
  user_context :: "string option"

record command_record =
  cr_id :: int
  command_id :: string
  command_type :: string
  cr_parameters :: json_dict
  cr_status :: string
  cr_result :: "json_dict option"
  cr_created_at :: string
  completed_at :: "string option"

text \<open>
  Table \<open>backup_records\<close> keeps its column list: \<open>BackupManager\<close> names columns in its
  INSERT, and SQLite raises \<open>OperationalError\<close> for a column the table does not have.
  A row is the dict that \<open>dict(row)\<close> gives for \<open>SELECT *\<close>. A path is its list of
  components, and a stored path (\<open>str(path)\<close>, read back with \<open>Path(...)\<close>) is kept as
  that list; \<open>SPaths\<close> is the JSON array of the source paths.
\<close>

datatype sqlval =
    SNull
  | SInt int
  | SText string
  | SBool bool
  | SPath "string list"
  | SPaths "string list list"

record sql_table =
  columns :: "string list"
  table_rows :: "(string \<times> sqlval) list list"

text \<open>
  The store behind the single shared connection. The tables are lists in rowid order; the
  \<open>_seq\<close> fields are the AUTOINCREMENT counters.
\<close>

record database =
  offline_queue :: "queue_item list"
  offline_queue_seq :: int
  security_events :: "security_event list"
  security_events_seq :: int
  backup_records :: "sql_table option"
  backup_records_seq :: int
  command_history :: "command_record list"
  command_history_seq :: int
  audit_log :: "audit_entry list"

definition empty_db :: database where
  "empty_db = \<lparr>offline_queue = [], offline_queue_seq = 0,
     security_events = [], security_events_seq = 0,
     backup_records = None, backup_records_seq = 0,
     command_history = [], command_history_seq = 0,
     audit_log = []\<rparr>"

text \<open>
  \<open>Database.add_to_queue\<close>: the INSERT names \<open>queue_type\<close>, \<open>payload\<close> and \<open>priority\<close>
  (default argument 0); the other columns take the table defaults. \<open>now\<close> is
  \<open>CURRENT_TIMESTAMP\<close>. Returns \<open>cursor.lastrowid\<close> with the new store.
\<close>

definition add_to_queue :: "string \<Rightarrow> database \<Rightarrow> string \<Rightarrow> json_dict \<Rightarrow> int \<Rightarrow> int \<times> database" where
  "add_to_queue now db qtype pl prio =
     (let new_id = offline_queue_seq db + 1;
          r = \<lparr>row_id = new_id, queue_type = qtype, payload = pl, priority = prio,
               created_at = now, retry_count = 0, max_retries = 3, status = ''pending''\<rparr>
      in (new_id, db\<lparr>offline_queue := offline_queue db @ [r], offline_queue_seq := new_id\<rparr>))"

definition add_to_queue_default_priority :: int where
  "add_to_queue_default_priority = 0"

text \<open>\<open>ORDER BY priority DESC, created_at ASC\<close>, ties left in rowid order.\<close>

definition order_by_priority_created :: "queue_item list \<Rightarrow> queue_item list" where
  "order_by_priority_created rs = sort_key (\<lambda>r. (- priority r, created_at r)) rs"

text \<open>\<open>LIMIT ?\<close>: SQLite puts no upper bound on the rows when the limit is negative.\<close>

definition sql_limit :: "int \<Rightarrow> 'a list \<Rightarrow> 'a list" where
  "sql_limit n rs = (if n < 0 then rs else take (nat n) rs)"

text \<open>\<open>Database.get_queue_items(queue_type=None, status='pending', limit=100)\<close>.\<close>

definition get_queue_items :: "database \<Rightarrow> string option \<Rightarrow> string \<Rightarrow> int \<Rightarrow> queue_item list" where
  "get_queue_items db qtype st limit =
     (if truthy_str qtype then
        sql_limit limit (order_by_priority_created
          (filter (\<lambda>r. queue_type r = the qtype \<and> status r = st) (offline_queue db)))
      else
        sql_limit limit (order_by_priority_created
          (filter (\<lambda>r. status r = st) (offline_queue db))))"

text \<open>
  \<open>Database.update_queue_item(item_id, status, result=None)\<close>: the first UPDATE sets the
  status and adds one to \<open>retry_count\<close> of every row with that id; when \<open>result\<close> is
  truthy, the payload of the row is read back and written with key \<open>result\<close> set.
\<close>

definition set_status_bump :: "int \<Rightarrow> string \<Rightarrow> queue_item \<Rightarrow> queue_item" where
  "set_status_bump item_id st r =
     (if row_id r = item_id then r\<lparr>status := st, retry_count := retry_count r + 1\<rparr> else r)"

definition patch_payload :: "int \<Rightarrow> json_dict \<Rightarrow> queue_item list \<Rightarrow> queue_item list" where
  "patch_payload item_id res rs =
     (case find (\<lambda>r. row_id r = item_id) rs of
        None \<Rightarrow> rs
      | Some row \<Rightarrow>
          map (\<lambda>r. if row_id r = item_id
                    then r\<lparr>payload := dict_set (payload row) ''result'' (JObj res)\<rparr> else r) rs)"

definition update_queue_item :: "database \<Rightarrow> int \<Rightarrow> string \<Rightarrow> json_dict option \<Rightarrow> database" where
  "update_queue_item db item_id st result =
     (let rs = map (set_status_bump item_id st) (offline_queue db)
      in if truthy_dict result
         then db\<lparr>offline_queue := patch_payload item_id (the result) rs\<rparr>
         else db\<lparr>offline_queue := rs\<rparr>)"

text \<open>\<open>Database.log_security_event\<close> and \<open>Database.log_audit\<close>.\<close>

definition falsy_to_null :: "json_dict option \<Rightarrow> json_dict option" where
  "falsy_to_null d = (if truthy_dict d then d else None)"

definition log_security_event ::
  "string \<Rightarrow> database \<Rightarrow> string \<Rightarrow> string \<Rightarrow> string \<Rightarrow> string option \<Rightarrow> string option
     \<Rightarrow> json_dict option \<Rightarrow> database" where
  "log_security_event now db etype sev descr fpath pname dets =
     (let new_id = security_events_seq db + 1;
          e = \<lparr>se_id = new_id, event_type = etype, severity = sev, description = descr,
               file_path = fpath, process_name = pname, details = falsy_to_null dets,
               se_timestamp = now, resolved = False\<rparr>
      in db\<lparr>security_events := security_events db @ [e], security_events_seq := new_id\<rparr>)"

definition log_audit ::
  "string \<Rightarrow> database \<Rightarrow> string \<Rightarrow> string option \<Rightarrow> json_dict option \<Rightarrow> string option \<Rightarrow> database" where
  "log_audit now db act res dets uc =
     db\<lparr>audit_log := audit_log db @
        [\<lparr>action = act, resource = res, audit_details = falsy_to_null dets,
          audit_timestamp = now, user_context = uc\<rparr>]\<rparr>"

section \<open>Sync worker (services/offline_queue.py)\<close>

text \<open>\<open>OfflineQueue.retry_failed_items\<close>: one UPDATE over the whole table.\<close>

definition retry_row :: "queue_item \<Rightarrow> queue_item" where
  "retry_row r =
     (if status r = ''failed'' \<and> retry_count r < max_retries r
      then r\<lparr>status := ''pending'', retry_count := 0\<rparr> else r)"

definition retry_failed_items :: "database \<Rightarrow> database" where
  "retry_failed_items db = db\<lparr>offline_queue := map retry_row (offline_queue db)\<rparr>"

text \<open>\<open>OfflineQueue.queue_command_result\<close>, the sync worker's own enqueue helper.\<close>

definition queue_command_result :: "string \<Rightarrow> database \<Rightarrow> string \<Rightarrow> json_dict \<Rightarrow> database" where
  "queue_command_result now db cid res =
     snd (add_to_queue now db ''command_result''
            [(''command_id'', JStr cid), (''result'', JObj res)] 3)"



section \<open>Command loop (services/command_processor.py)\<close>

text \<open>
  One entry of \<open>commands[]\<close> in a poll response: \<open>command.get('id')\<close>,
  \<open>command.get('type')\<close> and \<open>command.get('parameters', {})\<close>.
\<close>

record command =
  cmd_id :: "string option"
  cmd_type :: "string option"
  cmd_parameters :: json_dict

text \<open>What \<open>requests.post\<close> does: a response with a status code, or an exception.\<close>

datatype http_outcome = Status int | Raised string

text \<open>
  What the processor is built from and what it cannot decide itself: the configured
  backend and credential, the outcome of a handler run (\<open>Inl\<close> is the message of the
  exception it raised), and the backend's answer to a result POST made at a given time.
\<close>

record cp_env =
  base_url :: "string option"
  api_key :: "string option"
  handler :: "string \<Rightarrow> json_dict \<Rightarrow> string + json_dict"
  post_result :: "string \<Rightarrow> json \<Rightarrow> json \<Rightarrow> http_outcome"

text \<open>
  The processor's view of the world: the store, and the trace of handler invocations
  (command type and parameters), which is what "the handler ran" means here.
\<close>

record cp_state =
  cp_db :: database
  handler_calls :: "(string \<times> json_dict) list"

definition command_handlers :: "string list" where
  "command_handlers = [''backup'', ''restore'', ''scan'', ''isolate'', ''update_config'',
     ''shutdown'', ''restart'', ''get_status'', ''get_logs'']"

text \<open>\<open>_record_command\<close>: INSERT OR REPLACE on the UNIQUE column \<open>command_id\<close>.\<close>

definition record_command ::
  "string \<Rightarrow> database \<Rightarrow> string \<Rightarrow> string \<Rightarrow> json_dict \<Rightarrow> string \<Rightarrow> database" where
  "record_command now d cid ctype params st =
     (let new_id = command_history_seq d + 1;
          r = \<lparr>cr_id = new_id, command_id = cid, command_type = ctype, cr_parameters = params,
               cr_status = st, cr_result = None, cr_created_at = now, completed_at = None\<rparr>
      in d\<lparr>command_history := filter (\<lambda>x. command_id x \<noteq> cid) (command_history d) @ [r],
           command_history_seq := new_id\<rparr>)"

definition update_command_status ::
  "string \<Rightarrow> database \<Rightarrow> string \<Rightarrow> string \<Rightarrow> json_dict \<Rightarrow> database" where
  "update_command_status now d cid st res =
     d\<lparr>command_history :=
         map (\<lambda>x. if command_id x = cid
                   then x\<lparr>cr_status := st, cr_result := Some res, completed_at := Some now\<rparr>
                   else x) (command_history d)\<rparr>"

text \<open>\<open>_execute_command\<close>: an unknown type raises before any handler runs.\<close>

definition execute_command ::
  "cp_env \<Rightarrow> cp_state \<Rightarrow> string \<Rightarrow> json_dict \<Rightarrow> (string + json_dict) \<times> cp_state" where
  "execute_command env s ctype params =
     (if ctype \<notin> set command_handlers
      then (Inl (''Unknown command type: '' @ ctype), s)
      else (handler env ctype params,
            s\<lparr>handler_calls := handler_calls s @ [(ctype, params)]\<rparr>))"

text \<open>
  \<open>_send_command_result\<close>. All three failure branches (no backend configured, a status
  other than 200, an exception) make the same call
  \<open>self.db.add_to_queue('command_result', {...})\<close>, with no priority argument.
\<close>

definition enqueue_result :: "string \<Rightarrow> cp_state \<Rightarrow> json \<Rightarrow> json \<Rightarrow> cp_state" where
  "enqueue_result now s cid res =
     s\<lparr>cp_db := snd (add_to_queue now (cp_db s) ''command_result''
                       [(''command_id'', cid), (''result'', res)]
                       add_to_queue_default_priority)\<rparr>"

definition send_command_result :: "cp_env \<Rightarrow> string \<Rightarrow> cp_state \<Rightarrow> json \<Rightarrow> json \<Rightarrow> cp_state" where
  "send_command_result env now s cid res =
     (if \<not> truthy_str (base_url env) \<or> \<not> truthy_str (api_key env)
      then enqueue_result now s cid res
      else (case post_result env now cid res of
              Status code \<Rightarrow> if code = 200 then s else enqueue_result now s cid res
            | Raised e \<Rightarrow> enqueue_result now s cid res))"

text \<open>The POST of a result did not go through (or was not attempted).\<close>

definition post_fails :: "cp_env \<Rightarrow> string \<Rightarrow> json \<Rightarrow> json \<Rightarrow> bool" where
  "post_fails env now cid res \<longleftrightarrow>
     \<not> truthy_str (base_url env) \<or> \<not> truthy_str (api_key env)
     \<or> post_result env now cid res \<noteq> Status 200"

text \<open>\<open>_process_command\<close>.\<close>

definition process_command :: "cp_env \<Rightarrow> string \<Rightarrow> cp_state \<Rightarrow> command \<Rightarrow> cp_state" where
  "process_command env now s c =
     (if \<not> truthy_str (cmd_id c) \<or> \<not> truthy_str (cmd_type c) then s
      else
        let cid = the (cmd_id c); ctype = the (cmd_type c);
            s1 = s\<lparr>cp_db := record_command now (cp_db s) cid ctype (cmd_parameters c) ''received''\<rparr>
        in (case execute_command env s1 ctype (cmd_parameters c) of
              (Inr res, s2) \<Rightarrow>
                send_command_result env now
                  (s2\<lparr>cp_db := update_command_status now (cp_db s2) cid ''completed'' res\<rparr>)
                  (JStr cid) (JObj res)
            | (Inl e, s2) \<Rightarrow>
                let error_result = [(''error'', JStr e), (''success'', JBool False)]
                in send_command_result env now
                     (s2\<lparr>cp_db := update_command_status now (cp_db s2) cid ''failed'' error_result\<rparr>)
                     (JStr cid) (JObj error_result)))"

text \<open>
  \<open>_process_offline_queue\<close>: the body of the loop over the claimed items, then the loop.
  A payload without \<open>command_id\<close> or \<open>result\<close> raises \<open>KeyError\<close>, which the inner
  \<open>except\<close> turns into status \<open>failed\<close>.
\<close>

definition drain_item :: "cp_env \<Rightarrow> string \<Rightarrow> cp_state \<Rightarrow> queue_item \<Rightarrow> cp_state" where
  "drain_item env now s item =
     (case (map_of (payload item) ''command_id'', map_of (payload item) ''result'') of
        (Some cid, Some res) \<Rightarrow>
          (let s1 = send_command_result env now s cid res
           in s1\<lparr>cp_db := update_queue_item (cp_db s1) (row_id item) ''completed'' None\<rparr>)
      | _ \<Rightarrow> s\<lparr>cp_db := update_queue_item (cp_db s) (row_id item) ''failed'' None\<rparr>)"

fun drain_items :: "cp_env \<Rightarrow> string \<Rightarrow> cp_state \<Rightarrow> queue_item list \<Rightarrow> cp_state" where
  "drain_items env now s [] = s"
| "drain_items env now s (item # items) = drain_items env now (drain_item env now s item) items"

definition process_offline_queue :: "cp_env \<Rightarrow> string \<Rightarrow> cp_state \<Rightarrow> cp_state" where
  "process_offline_queue env now s =
     drain_items env now s (get_queue_items (cp_db s) (Some ''command_result'') ''pending'' 10)"

text \<open>
  One iteration of \<open>_command_loop\<close> on the commands a poll returned, and the loop over
  a sequence of polls (the time of the iteration with the commands it received).
\<close>

fun process_commands :: "cp_env \<Rightarrow> string \<Rightarrow> cp_state \<Rightarrow> command list \<Rightarrow> cp_state" where
  "process_commands env now s [] = s"
| "process_commands env now s (c # cs) = process_commands env now (process_command env now s c) cs"

definition command_loop_iteration :: "cp_env \<Rightarrow> cp_state \<Rightarrow> string \<times> command list \<Rightarrow> cp_state" where
  "command_loop_iteration env s poll =
     process_offline_queue env (fst poll) (process_commands env (fst poll) s (snd poll))"

fun command_loop :: "cp_env \<Rightarrow> cp_state \<Rightarrow> (string \<times> command list) list \<Rightarrow> cp_state" where
  "command_loop env s [] = s"
| "command_loop env s (poll # polls) = command_loop env (command_loop_iteration env s poll) polls"

text \<open>A received command that reaches a handler: id and type present, type supported.\<close>

definition dispatched :: "command \<Rightarrow> bool" where
  "dispatched c \<longleftrightarrow>
     truthy_str (cmd_id c) \<and> truthy_str (cmd_type c) \<and> the (cmd_type c) \<in> set command_handlers"

definition handler_call_of :: "command \<Rightarrow> string \<times> json_dict" where
  "handler_call_of c = (the (cmd_type c), cmd_parameters c)"

text \<open>
  Vocabulary for the drain of \<open>command_result\<close> items: a payload the loop body can read,
  whether the POST of an item fails, the row a failed POST inserts (as
  \<open>add_to_queue\<close> builds it), and the rows inserted for a list of items, numbered from
  the AUTOINCREMENT counter.
\<close>

definition has_result_payload :: "queue_item \<Rightarrow> bool" where
  "has_result_payload item \<longleftrightarrow>
     map_of (payload item) ''command_id'' \<noteq> None \<and> map_of (payload item) ''result'' \<noteq> None"

definition payload_command_id :: "queue_item \<Rightarrow> json" where
  "payload_command_id item = the (map_of (payload item) ''command_id'')"

definition payload_result :: "queue_item \<Rightarrow> json" where
  "payload_result item = the (map_of (payload item) ''result'')"

definition item_post_fails :: "cp_env \<Rightarrow> string \<Rightarrow> queue_item \<Rightarrow> bool" where
  "item_post_fails env now item = post_fails env now (payload_command_id item) (payload_result item)"

definition requeue_row :: "string \<Rightarrow> int \<Rightarrow> queue_item \<Rightarrow> queue_item" where
  "requeue_row now n item =
     \<lparr>row_id = n, queue_type = ''command_result'',
      payload = [(''command_id'', payload_command_id item), (''result'', payload_result item)],
      priority = 0, created_at = now, retry_count = 0, max_retries = 3, status = ''pending''\<rparr>"

fun requeued :: "string \<Rightarrow> int \<Rightarrow> queue_item list \<Rightarrow> queue_item list" where
  "requeued now n [] = []"
| "requeued now n (item # items) = requeue_row now (n + 1) item # requeued now (n + 1) items"

definition completed_many :: "int list \<Rightarrow> queue_item \<Rightarrow> queue_item" where
  "completed_many ids r =
     (if row_id r \<in> set ids
      then r\<lparr>status := ''completed'',
             retry_count := retry_count r + int (count_list ids (row_id r))\<rparr>
      else r)"

section \<open>Alert dispatcher (services/alert_manager.py)\<close>

text \<open>
  A moment as the code reads it: \<open>time.time()\<close> in seconds, and the text of the same
  moment that goes into timestamp columns.
\<close>

record instant =
  epoch :: real
  iso :: string

text \<open>
  The configured cooldown (\<open>config.getint\<close>) and the rendering of the message text
  (\<open>_generate_alert_data\<close> with \<open>_format_alert_message\<close>), which no claim depends on.
\<close>

record alert_env =
  alert_cooldown :: int
  render_event :: "security_event \<Rightarrow> string"
  render_command :: "command_record \<Rightarrow> string"

text \<open>
  The dispatcher's state: the store, the cooldown dict \<open>last_alerts\<close>, and the trace of
  emissions, one entry (time, alert type, severity) per call of \<open>_send_alert\<close>.
\<close>

record alert_state =
  am_db :: database
  last_alerts :: "string \<rightharpoonup> real"
  emitted :: "(real \<times> string \<times> string) list"

definition alert_key :: "string \<Rightarrow> string \<Rightarrow> string" where
  "alert_key etype sev = etype @ ''_'' @ sev"

text \<open>\<open>_should_send_alert\<close>: the answer and the state with the dict updated.\<close>

definition should_send_alert ::
  "alert_env \<Rightarrow> instant \<Rightarrow> alert_state \<Rightarrow> string \<Rightarrow> string \<Rightarrow> bool \<times> alert_state" where
  "should_send_alert env t s etype sev =
     (let k = alert_key etype sev;
          s' = s\<lparr>last_alerts := (last_alerts s)(k \<mapsto> epoch t)\<rparr>
      in case last_alerts s k of
           None \<Rightarrow> (True, s')
         | Some l \<Rightarrow> if epoch t - l < real_of_int (alert_cooldown env) then (False, s)
                      else (True, s'))"

text \<open>
  \<open>_send_alert\<close>: the transports log their own failures, so \<open>_record_alert\<close> always
  runs; it writes the audit row \<open>alert_sent\<close>.
\<close>

definition send_alert :: "instant \<Rightarrow> alert_state \<Rightarrow> string \<Rightarrow> string \<Rightarrow> string \<Rightarrow> alert_state" where
  "send_alert t s atype message sev =
     s\<lparr>am_db := (am_db s)\<lparr>audit_log := audit_log (am_db s) @
           [\<lparr>action = ''alert_sent'', resource = Some atype,
             audit_details = Some [(''message'', JStr message), (''severity'', JStr sev),
                                   (''timestamp'', JStr (iso t))],
             audit_timestamp = iso t, user_context = None\<rparr>]\<rparr>,
       emitted := emitted s @ [(epoch t, atype, sev)]\<rparr>"

definition mark_event_resolved :: "alert_state \<Rightarrow> int \<Rightarrow> alert_state" where
  "mark_event_resolved s eid =
     s\<lparr>am_db := (am_db s)\<lparr>security_events :=
          map (\<lambda>e. if se_id e = eid then e\<lparr>resolved := True\<rparr> else e)
              (security_events (am_db s))\<rparr>\<rparr>"

text \<open>\<open>_process_security_event\<close>: gated by \<open>_should_send_alert\<close>.\<close>

definition process_security_event ::
  "alert_env \<Rightarrow> instant \<Rightarrow> alert_state \<Rightarrow> security_event \<Rightarrow> alert_state" where
  "process_security_event env t s ev =
     (case should_send_alert env t s (event_type ev) (severity ev) of
        (False, s1) \<Rightarrow> s1
      | (True, s1) \<Rightarrow>
          mark_event_resolved
            (send_alert t s1 (event_type ev) (render_event env ev) (severity ev)) (se_id ev))"

text \<open>\<open>_process_command_event\<close>: the type filter, then \<open>_send_alert\<close> directly.\<close>

definition alerting_command_types :: "string list" where
  "alerting_command_types = [''backup'', ''restore'', ''scan'', ''isolate'']"

definition process_command_event ::
  "alert_env \<Rightarrow> instant \<Rightarrow> alert_state \<Rightarrow> command_record \<Rightarrow> alert_state" where
  "process_command_event env t s c =
     (if command_type c \<notin> set alerting_command_types then s
      else send_alert t s ''command_executed'' (render_command env c) ''medium'')"

text \<open>
  \<open>_process_pending_alerts\<close>, one tick of the loop. \<open>hour_ago\<close> is the text of
  \<open>datetime('now', '-1 hour')\<close>; both result sets are read newest first.
\<close>

definition process_pending_alerts ::
  "alert_env \<Rightarrow> instant \<Rightarrow> string \<Rightarrow> alert_state \<Rightarrow> alert_state" where
  "process_pending_alerts env t hour_ago s =
     (let events = rev (sort_key se_timestamp
                     (filter (\<lambda>e. se_timestamp e > hour_ago \<and> \<not> resolved e)
                        (security_events (am_db s))));
          s1 = foldl (process_security_event env t) s events;
          commands = rev (sort_key cr_created_at
                       (filter (\<lambda>c. cr_created_at c > hour_ago) (command_history (am_db s1))))
      in foldl (process_command_event env t) s1 commands)"

fun alert_loop :: "alert_env \<Rightarrow> alert_state \<Rightarrow> (instant \<times> string) list \<Rightarrow> alert_state" where
  "alert_loop env s [] = s"
| "alert_loop env s (tick # ticks) =
     alert_loop env (process_pending_alerts env (fst tick) (snd tick) s) ticks"

text \<open>A run of the security-event path alone: the events handed over, each at its time.\<close>

fun security_run :: "alert_env \<Rightarrow> alert_state \<Rightarrow> (instant \<times> security_event) list \<Rightarrow> alert_state" where
  "security_run env s [] = s"
| "security_run env s (step # steps) =
     security_run env (process_security_event env (fst step) s (snd step)) steps"

text \<open>
  The cooldown property of a trace: two emissions with the same dedup key are at least
  the cooldown apart.
\<close>

definition emission_key :: "real \<times> string \<times> string \<Rightarrow> string" where
  "emission_key x = alert_key (fst (snd x)) (snd (snd x))"

fun cooldown_honored :: "int \<Rightarrow> (real \<times> string \<times> string) list \<Rightarrow> bool" where
  "cooldown_honored cd [] = True"
| "cooldown_honored cd (x # xs) =
     (list_all (\<lambda>y. emission_key y \<noteq> emission_key x \<or> real_of_int cd \<le> \<bar>fst y - fst x\<bar>) xs
      \<and> cooldown_honored cd xs)"

section \<open>File watcher (services/file_watcher.py)\<close>

subsection \<open>Strings and paths\<close>

text \<open>\<open>str(n)\<close> for a count.\<close>

function str_nat :: "nat \<Rightarrow> string" where
  "str_nat n = (if n < 10 then [char_of (48 + n)]
                else str_nat (n div 10) @ [char_of (48 + n mod 10)])"
  by pat_completeness auto
termination
  by (relation "measure id") auto

declare str_nat.simps [simp del]

text \<open>\<open>str.lower\<close> on ASCII letters.\<close>

definition lower_char :: "char \<Rightarrow> char" where
  "lower_char c = (if CHR ''A'' \<le> c \<and> c \<le> CHR ''Z'' then char_of (of_char c + (32::nat)) else c)"

definition lower :: "string \<Rightarrow> string" where
  "lower s = map lower_char s"

text \<open>\<open>pattern in name\<close>.\<close>

fun contains :: "string \<Rightarrow> string \<Rightarrow> bool" where
  "contains [] pat = (pat = [])"
| "contains (c # cs) pat = (prefix pat (c # cs) \<or> contains cs pat)"

text \<open>
  \<open>Path(p).name\<close> and \<open>Path(p).suffix\<close> on the agent's platform, where both slash and
  backslash separate components: the name is the last component, the suffix starts at
  the last dot of the name unless that dot is its first or its last character.
\<close>

definition is_sep :: "char \<Rightarrow> bool" where
  "is_sep c \<longleftrightarrow> c = CHR ''/'' \<or> c = CHR 0x5C"

definition path_name :: "string \<Rightarrow> string" where
  "path_name p = rev (takeWhile (\<lambda>c. \<not> is_sep c) (dropWhile is_sep (rev p)))"

definition name_suffix :: "string \<Rightarrow> string" where
  "name_suffix name =
     (let after = rev (takeWhile (\<lambda>c. c \<noteq> CHR ''.'') (rev name))
      in if CHR ''.'' \<notin> set name \<or> after = [] \<or> length name = length after + 1 then []
         else CHR ''.'' # after)"

definition path_suffix :: "string \<Rightarrow> string" where
  "path_suffix p = name_suffix (path_name p)"

subsection \<open>RansomwareDetector\<close>

text \<open>The four \<open>on_*\<close> callbacks are the only sources of an event type.\<close>

datatype fs_event_kind = Created | Modified | Moved | Deleted

text \<open>The dict \<open>event_data\<close> that \<open>_process_file_event\<close> appends to the ring.\<close>

record event_data =
  ev_type :: fs_event_kind
  src_path :: string
  dest_path :: "string option"
  ev_timestamp :: real
  extension :: string
  is_suspicious_extension :: bool
  is_encryption_pattern :: bool

record detector_config =
  suspicious_extensions :: "string list"
  max_file_size :: int

record detector =
  recent_events :: "event_data list"
  det_db :: database

definition encryption_patterns :: "string list" where
  "encryption_patterns = [''.encrypted'', ''.locked'', ''.crypto'', ''.crypt'']"

definition mass_write_threshold :: nat where "mass_write_threshold = 50"
definition mass_rename_threshold :: nat where "mass_rename_threshold = 30"
definition suspicious_extension_threshold :: nat where "suspicious_extension_threshold = 10"

definition default_suspicious_extensions :: "string list" where
  "default_suspicious_extensions =
     [''.exe'', ''.bat'', ''.cmd'', ''.scr'', ''.pif'', ''.com'', ''.vbs'', ''.js'']"

text \<open>The events of the last minute, as \<open>_check_ransomware_patterns\<close> filters them.\<close>

definition last_minute :: "real \<Rightarrow> event_data list \<Rightarrow> event_data list" where
  "last_minute now evs = filter (\<lambda>e. ev_timestamp e > now - 60) evs"

text \<open>
  The calls of \<open>_trigger_alert\<close> that one run of \<open>_check_ransomware_patterns\<close> makes,
  in the order of its five \<open>if\<close> statements: alert type and \<open>details\<close> dict.
\<close>

definition pattern_alerts :: "real \<Rightarrow> event_data list \<Rightarrow> (string \<times> json_dict) list" where
  "pattern_alerts now evs =
     (let recent = last_minute now evs in
      if recent = [] then []
      else
        let created_count = length (filter (\<lambda>e. ev_type e = Created) recent);
            modified_count = length (filter (\<lambda>e. ev_type e = Modified) recent);
            moved_count = length (filter (\<lambda>e. ev_type e = Moved) recent);
            deleted_count = length (filter (\<lambda>e. ev_type e = Deleted) recent);
            total_operations = created_count + modified_count + moved_count + deleted_count;
            suspicious_count = length (filter is_suspicious_extension recent);
            encryption_count = length (filter is_encryption_pattern recent);
            modified_files = filter (\<lambda>e. ev_type e = Modified) recent
        in
          (if total_operations > mass_write_threshold then
             [(''mass_file_operations'',
               [(''severity'', JStr ''high''),
                (''message'', JStr (''Mass file operations detected: '' @ str_nat total_operations
                                     @ '' operations in 1 minute'')),
                (''created'', JInt (int created_count)),
                (''modified'', JInt (int modified_count)),
                (''moved'', JInt (int moved_count)),
                (''deleted'', JInt (int deleted_count)),
                (''threshold'', JInt (int mass_write_threshold))])]
           else []) @
          (if moved_count > mass_rename_threshold then
             [(''mass_renames'',
               [(''severity'', JStr ''high''),
                (''message'', JStr (''Mass file renames detected: '' @ str_nat moved_count
                                     @ '' renames in 1 minute'')),
                (''count'', JInt (int moved_count)),
                (''threshold'', JInt (int mass_rename_threshold))])]
           else []) @
          (if suspicious_count > suspicious_extension_threshold then
             [(''suspicious_extensions'',
               [(''severity'', JStr ''medium''),
                (''message'', JStr (''Many suspicious file extensions detected: ''
                                     @ str_nat suspicious_count @ '' files in 1 minute'')),
                (''count'', JInt (int suspicious_count)),
                (''threshold'', JInt (int suspicious_extension_threshold))])]
           else []) @
          (if encryption_count > 5 then
             [(''encryption_patterns'',
               [(''severity'', JStr ''critical''),
                (''message'', JStr (''Encryption patterns detected: '' @ str_nat encryption_count
                                     @ '' files with encryption-like names'')),
                (''count'', JInt (int encryption_count)),
                (''files'', JList (map (\<lambda>e. JStr (src_path e))
                                     (filter is_encryption_pattern recent)))])]
           else []) @
          (if length modified_files > 20 then
             [(''rapid_modifications'',
               [(''severity'', JStr ''high''),
                (''message'', JStr (''Rapid file modifications detected: ''
                                     @ str_nat (length modified_files)
                                     @ '' files modified in 1 minute'')),
                (''count'', JInt (int (length modified_files))),
                (''files'', JList (map (\<lambda>e. JStr (src_path e)) (take 10 modified_files)))])]
           else []))"

text \<open>
  \<open>_trigger_alert\<close>: one row in \<open>security_events\<close>, one in \<open>audit_log\<close>. A \<open>details\<close>
  dict without \<open>severity\<close> or \<open>message\<close> would raise \<open>KeyError\<close> before either write;
  the dicts above all have both.
\<close>

definition trigger_alert :: "string \<Rightarrow> database \<Rightarrow> string \<times> json_dict \<Rightarrow> database" where
  "trigger_alert now d alert =
     (case (map_of (snd alert) ''severity'', map_of (snd alert) ''message'') of
        (Some (JStr sev), Some (JStr msg)) \<Rightarrow>
          log_audit now
            (log_security_event now d ''ransomware_detection'' sev msg None None (Some (snd alert)))
            ''ransomware_alert_triggered'' (Some (fst alert)) (Some (snd alert)) None
      | _ \<Rightarrow> d)"

definition check_ransomware_patterns :: "instant \<Rightarrow> detector \<Rightarrow> detector" where
  "check_ransomware_patterns t det =
     det\<lparr>det_db := foldl (trigger_alert (iso t)) (det_db det)
                      (pattern_alerts (epoch t) (recent_events det))\<rparr>"

text \<open>The dict built for one event.\<close>

definition make_event_data ::
  "detector_config \<Rightarrow> instant \<Rightarrow> fs_event_kind \<Rightarrow> string \<Rightarrow> string option \<Rightarrow> event_data" where
  "make_event_data cfg t kind src dest =
     \<lparr>ev_type = kind, src_path = src, dest_path = dest,
      ev_timestamp = epoch t,
      extension = lower (path_suffix src),
      is_suspicious_extension = (lower (path_suffix src) \<in> set (suspicious_extensions cfg)),
      is_encryption_pattern = list_ex (contains (lower (path_name src))) encryption_patterns\<rparr>"

text \<open>
  \<open>_process_file_event\<close>. From the file system it learns whether the path is under an
  excluded directory (\<open>ignored\<close>) and, when the file exists, its size. \<open>t\<close> is the time
  of the append, \<open>t_scan\<close> the time the scan reads right after it.
\<close>

definition process_file_event ::
  "detector_config \<Rightarrow> instant \<Rightarrow> instant \<Rightarrow> bool \<Rightarrow> int option \<Rightarrow> detector
     \<Rightarrow> fs_event_kind \<Rightarrow> string \<Rightarrow> string option \<Rightarrow> detector" where
  "process_file_event cfg t t_scan ignored size_on_disk det kind src dest =
     (if ignored then det
      else if (case size_on_disk of None \<Rightarrow> False | Some n \<Rightarrow> n > max_file_size cfg) then det
      else
        let event = make_event_data cfg t kind src dest;
            ring = filter (\<lambda>e. epoch t - ev_timestamp e < 300) (recent_events det @ [event])
        in check_ransomware_patterns t_scan (det\<lparr>recent_events := ring\<rparr>))"

text \<open>
  The rows a list of alerts leaves in \<open>security_events\<close>, numbered from the counter,
  and the count each detector compares with its threshold.
\<close>

fun alert_events :: "string \<Rightarrow> int \<Rightarrow> (string \<times> json_dict) list \<Rightarrow> security_event list" where
  "alert_events now n [] = []"
| "alert_events now n (a # as) =
     \<lparr>se_id = n + 1, event_type = ''ransomware_detection'',
      severity = (case map_of (snd a) ''severity'' of Some (JStr v) \<Rightarrow> v | _ \<Rightarrow> []),
      description = (case map_of (snd a) ''message'' of Some (JStr v) \<Rightarrow> v | _ \<Rightarrow> []),
      file_path = None, process_name = None, details = Some (snd a),
      se_timestamp = now, resolved = False\<rparr> # alert_events now (n + 1) as"

definition count_kind :: "fs_event_kind \<Rightarrow> event_data list \<Rightarrow> nat" where
  "count_kind k evs = length (filter (\<lambda>e. ev_type e = k) evs)"

definition alert_audits :: "string \<Rightarrow> (string \<times> json_dict) list \<Rightarrow> audit_entry list" where
  "alert_audits now as =
     map (\<lambda>a. \<lparr>action = ''ransomware_alert_triggered'', resource = Some (fst a),
                audit_details = Some (snd a), audit_timestamp = now, user_context = None\<rparr>) as"

text \<open>An event that passes both early returns of \<open>_process_file_event\<close>.\<close>

definition accepted :: "detector_config \<Rightarrow> bool \<Rightarrow> int option \<Rightarrow> bool" where
  "accepted cfg ignored size_on_disk \<longleftrightarrow>
     \<not> ignored \<and> (case size_on_disk of None \<Rightarrow> True | Some n \<Rightarrow> n \<le> max_file_size cfg)"

text \<open>The number of entries under \<open>files\<close> in a \<open>details\<close> dict.\<close>

definition files_entries :: "json_dict \<Rightarrow> nat" where
  "files_entries dets = (case map_of dets ''files'' of Some (JList fs) \<Rightarrow> length fs | _ \<Rightarrow> 0)"

section \<open>Backup engine (services/backup_manager.py)\<close>

subsection \<open>The file system\<close>

datatype fsnode = File string | Dir "(string \<times> fsnode) list"

type_synonym path = "string list"

fun lookup :: "fsnode \<Rightarrow> path \<Rightarrow> fsnode option" where
  "lookup n [] = Some n"
| "lookup (File b) (c # cs) = None"
| "lookup (Dir es) (c # cs) = (case map_of es c of None \<Rightarrow> None | Some n \<Rightarrow> lookup n cs)"

text \<open>\<open>open(p, 'rb').read()\<close>: \<open>None\<close> when there is no file at \<open>p\<close>.\<close>

definition read_file :: "fsnode \<Rightarrow> path \<Rightarrow> string option" where
  "read_file tree p = (case lookup tree p of Some (File b) \<Rightarrow> Some b | _ \<Rightarrow> None)"

text \<open>\<open>open(p, 'wb').write(data)\<close>: the parent must be a directory, the target not one.\<close>

fun write_file :: "fsnode \<Rightarrow> path \<Rightarrow> string \<Rightarrow> fsnode option" where
  "write_file n [] data = (case n of File b \<Rightarrow> Some (File data) | Dir es \<Rightarrow> None)"
| "write_file (File b) (c # cs) data = None"
| "write_file (Dir es) (c # cs) data =
     (case map_of es c of
        None \<Rightarrow> if cs = [] then Some (Dir (dict_set es c (File data))) else None
      | Some n \<Rightarrow> (case write_file n cs data of
                     None \<Rightarrow> None
                   | Some n' \<Rightarrow> Some (Dir (dict_set es c n'))))"

text \<open>\<open>Path.unlink()\<close>.\<close>

fun unlink :: "fsnode \<Rightarrow> path \<Rightarrow> fsnode option" where
  "unlink n [] = None"
| "unlink (File b) (c # cs) = None"
| "unlink (Dir es) (c # cs) =
     (case map_of es c of
        None \<Rightarrow> None
      | Some n \<Rightarrow>
          if cs = [] then (case n of File b \<Rightarrow> Some (Dir (filter (\<lambda>e. fst e \<noteq> c) es))
                                   | Dir ds \<Rightarrow> None)
          else (case unlink n cs of None \<Rightarrow> None | Some n' \<Rightarrow> Some (Dir (dict_set es c n'))))"

text \<open>\<open>Path.mkdir(parents=True, exist_ok=True)\<close>: fails only on a file in the way.\<close>

fun mkdir_p :: "fsnode \<Rightarrow> path \<Rightarrow> fsnode option" where
  "mkdir_p (File b) cs = None"
| "mkdir_p (Dir es) [] = Some (Dir es)"
| "mkdir_p (Dir es) (c # cs) =
     (case mkdir_p (case map_of es c of None \<Rightarrow> Dir [] | Some n \<Rightarrow> n) cs of
        None \<Rightarrow> None
      | Some n' \<Rightarrow> Some (Dir (dict_set es c n')))"

text \<open>
  \<open>tar.extractall(restore_dir)\<close> on the members of an archive (archive name and
  content): parents are created as needed. The flag is False when a write raised; the
  file system returned is the one reached by then.
\<close>

fun extractall :: "fsnode \<Rightarrow> path \<Rightarrow> (path \<times> string) list \<Rightarrow> bool \<times> fsnode" where
  "extractall tree dir [] = (True, tree)"
| "extractall tree dir (m # ms) =
     (case mkdir_p tree (dir @ butlast (fst m)) of
        None \<Rightarrow> (False, tree)
      | Some r1 \<Rightarrow> (case write_file r1 (dir @ fst m) (snd m) of
                      None \<Rightarrow> (False, r1)
                    | Some r2 \<Rightarrow> extractall r2 dir ms))"

subsection \<open>Building the archive\<close>

definition skipped_dir :: "string \<Rightarrow> bool" where
  "skipped_dir d \<longleftrightarrow> prefix ''.'' d \<or> d = ''__pycache__''"

definition skipped_suffixes :: "string list" where
  "skipped_suffixes = [''.tmp'', ''.log'', ''.cache'']"

text \<open>
  \<open>os.walk\<close> as \<open>_add_to_archive\<close> uses it: the files of a directory first, then its
  subdirectories that are not skipped; \<open>rel\<close> is the archive name of the directory.
\<close>

fun dir_files :: "path \<Rightarrow> (string \<times> fsnode) list \<Rightarrow> (path \<times> string) list" where
  "dir_files rel [] = []"
| "dir_files rel ((n, File b) # es) = (rel @ [n], b) # dir_files rel es"
| "dir_files rel ((n, Dir ds) # es) = dir_files rel es"

fun walk :: "path \<Rightarrow> fsnode \<Rightarrow> (path \<times> string) list"
  and walk_subdirs :: "path \<Rightarrow> (string \<times> fsnode) list \<Rightarrow> (path \<times> string) list" where
  "walk rel (File b) = []"
| "walk rel (Dir es) =
     filter (\<lambda>m. lower (name_suffix (last (fst m))) \<notin> set skipped_suffixes) (dir_files rel es)
       @ walk_subdirs rel es"
| "walk_subdirs rel [] = []"
| "walk_subdirs rel ((n, File b) # es) = walk_subdirs rel es"
| "walk_subdirs rel ((n, Dir ds) # es) =
     (if skipped_dir n then [] else walk (rel @ [n]) (Dir ds)) @ walk_subdirs rel es"

definition base_name :: "path \<Rightarrow> path" where
  "base_name p = (if p = [] then [] else [last p])"

definition add_to_archive :: "fsnode \<Rightarrow> path \<Rightarrow> (path \<times> string) list" where
  "add_to_archive tree p =
     (case lookup tree p of
        Some (File b) \<Rightarrow> [(base_name p, b)]
      | Some (Dir es) \<Rightarrow> walk (base_name p) (Dir es)
      | None \<Rightarrow> [])"

text \<open>\<open>Path.with_suffix\<close> on the last component.\<close>

definition with_suffix :: "path \<Rightarrow> string \<Rightarrow> path" where
  "with_suffix p sfx =
     (if p = [] then []
      else butlast p @ [take (length (last p) - length (name_suffix (last p))) (last p) @ sfx])"

subsection \<open>The table of backup records\<close>

text \<open>The columns \<open>Database._create_tables\<close> gives table \<open>backup_records\<close>.\<close>

definition backup_records_schema :: "string list" where
  "backup_records_schema = [''id'', ''backup_id'', ''backup_type'', ''source_paths'',
     ''backup_path'', ''size_bytes'', ''encrypted'', ''created_at'', ''uploaded'', ''upload_url'']"

text \<open>\<open>CREATE TABLE IF NOT EXISTS\<close>: an existing table keeps the columns it has.\<close>

definition create_tables :: "database \<Rightarrow> database" where
  "create_tables d =
     (case backup_records d of
        None \<Rightarrow> d\<lparr>backup_records := Some \<lparr>columns = backup_records_schema, table_rows = []\<rparr>\<rparr>
      | Some tbl \<Rightarrow> d)"

text \<open>\<open>Database.initialize\<close> on a data directory without \<open>agent.db\<close>.\<close>

definition initialize :: database where
  "initialize = create_tables empty_db"

text \<open>The columns the INSERT of \<open>_record_backup\<close> names.\<close>

definition backup_insert_columns :: "string list" where
  "backup_insert_columns = [''backup_id'', ''backup_type'', ''source_paths'', ''backup_path'',
     ''size_bytes'', ''encrypted'', ''created_at'', ''checksum'', ''description'']"

definition column_default :: "int \<Rightarrow> string \<Rightarrow> sqlval" where
  "column_default n c =
     (if c = ''id'' then SInt n
      else if c = ''uploaded'' then SBool False
      else SNull)"

text \<open>
  \<open>_record_backup\<close>: \<open>None\<close> is the exception sqlite3 raises, for a missing table, for a
  named column the table does not have, or for a second row with the same UNIQUE
  \<open>backup_id\<close>.
\<close>

definition record_backup ::
  "string \<Rightarrow> database \<Rightarrow> string \<Rightarrow> string \<Rightarrow> path list \<Rightarrow> path \<Rightarrow> int \<Rightarrow> string \<Rightarrow> string
     \<Rightarrow> database option" where
  "record_backup now d backup_id backup_type source_paths backup_path size_bytes descr checksum =
     (case backup_records d of
        None \<Rightarrow> None
      | Some tbl \<Rightarrow>
          if \<not> set backup_insert_columns \<subseteq> set (columns tbl) then None
          else if list_ex (\<lambda>row. map_of row ''backup_id'' = Some (SText backup_id)) (table_rows tbl)
          then None
          else
            let named = [(''backup_id'', SText backup_id), (''backup_type'', SText backup_type),
                         (''source_paths'', SPaths source_paths), (''backup_path'', SPath backup_path),
                         (''size_bytes'', SInt size_bytes), (''encrypted'', SBool True),
                         (''created_at'', SText now), (''checksum'', SText checksum),
                         (''description'', SText descr)];
                new_id = backup_records_seq d + 1;
                row = map (\<lambda>c. (c, case map_of named c of Some v \<Rightarrow> v
                                                         | None \<Rightarrow> column_default new_id c))
                          (columns tbl)
            in Some (d\<lparr>backup_records := Some (tbl\<lparr>table_rows := table_rows tbl @ [row]\<rparr>),
                      backup_records_seq := new_id\<rparr>))"

text \<open>\<open>_get_backup_record\<close>: the first row with that id, as a dict.\<close>

definition get_backup_record :: "database \<Rightarrow> string \<Rightarrow> (string \<times> sqlval) list option" where
  "get_backup_record d backup_id =
     (case backup_records d of
        None \<Rightarrow> None
      | Some tbl \<Rightarrow> find (\<lambda>row. map_of row ''backup_id'' = Some (SText backup_id)) (table_rows tbl))"

subsection \<open>BackupManager\<close>

text \<open>
  What the manager is configured with and the libraries it calls: tar with gzip
  (\<open>tarfile\<close>), the Fernet cipher, SHA-256. \<open>None\<close> from \<open>read_archive\<close> or \<open>decrypt\<close> is
  the exception the library raises on input it rejects.
\<close>

record backup_env =
  backup_dir :: path
  work_dir :: path
  max_backup_size :: int
  compress_archive :: "(path \<times> string) list \<Rightarrow> string"
  read_archive :: "string \<Rightarrow> (path \<times> string) list option"
  encrypt :: "string \<Rightarrow> string"
  decrypt :: "string \<Rightarrow> string option"
  sha256_hex :: "string \<Rightarrow> string"

record backup_state =
  bm_fs :: fsnode
  bm_db :: database

text \<open>\<open>str(path)\<close>.\<close>

definition path_str :: "path \<Rightarrow> string" where
  "path_str p = concat (map (\<lambda>c. ''/'' @ c) p)"

text \<open>\<open>_verify_checksum\<close> on the bytes of the artifact and \<open>backup_record.get('checksum')\<close>.\<close>

fun verify_checksum :: "backup_env \<Rightarrow> string \<Rightarrow> sqlval option \<Rightarrow> bool" where
  "verify_checksum env data None = True"
| "verify_checksum env data (Some SNull) = True"
| "verify_checksum env data (Some (SText c)) = (c = [] \<or> sha256_hex env data = c)"
| "verify_checksum env data (Some (SInt n)) = (n = 0)"
| "verify_checksum env data (Some (SBool b)) = (\<not> b)"
| "verify_checksum env data (Some (SPath p)) = False"
| "verify_checksum env data (Some (SPaths ps)) = False"

text \<open>
  \<open>create_backup\<close>. \<open>backup_id\<close> is what \<open>_generate_backup_id\<close> returned, \<open>stamp\<close> the
  formatted time in the file name. Every \<open>(None, ...)\<close> is a \<open>return None\<close>, the later
  ones through \<open>except Exception\<close>, with the files written so far left in place.
\<close>

definition create_backup ::
  "backup_env \<Rightarrow> string \<Rightarrow> string \<Rightarrow> string \<Rightarrow> backup_state \<Rightarrow> path list \<Rightarrow> string \<Rightarrow> string
     \<Rightarrow> string option \<times> backup_state" where
  "create_backup env backup_id stamp now st source_paths backup_type descr =
     (let backup_path = backup_dir env @ [''backup_'' @ backup_id @ ''_'' @ stamp @ ''.tar.gz.enc''];
          valid_paths = filter (\<lambda>p. lookup (bm_fs st) p \<noteq> None) source_paths
      in if valid_paths = [] then (None, st)
         else
           let temp_backup_path = with_suffix backup_path ''.tmp'';
               archive = compress_archive env (concat (map (add_to_archive (bm_fs st)) valid_paths))
           in case write_file (bm_fs st) temp_backup_path archive of
                None \<Rightarrow> (None, st)
              | Some fs1 \<Rightarrow>
                  if int (length archive) > max_backup_size env
                  then (None, st\<lparr>bm_fs := (case unlink fs1 temp_backup_path of
                                              None \<Rightarrow> fs1 | Some fs2 \<Rightarrow> fs2)\<rparr>)
                  else
                    (case write_file fs1 backup_path (encrypt env archive) of
                       None \<Rightarrow> (None, st\<lparr>bm_fs := fs1\<rparr>)
                     | Some fs2 \<Rightarrow>
                         (case unlink fs2 temp_backup_path of
                            None \<Rightarrow> (None, st\<lparr>bm_fs := fs2\<rparr>)
                          | Some fs3 \<Rightarrow>
                              (case read_file fs3 backup_path of
                                 None \<Rightarrow> (None, st\<lparr>bm_fs := fs3\<rparr>)
                               | Some artifact \<Rightarrow>
                                   (case record_backup now (bm_db st) backup_id backup_type
                                           source_paths backup_path (int (length archive)) descr
                                           (sha256_hex env artifact) of
                                      None \<Rightarrow> (None, st\<lparr>bm_fs := fs3\<rparr>)
                                    | Some d \<Rightarrow> (Some backup_id, \<lparr>bm_fs = fs3, bm_db = d\<rparr>))))))"

text \<open>
  \<open>restore_backup(backup_id, restore_path=None)\<close>; the default target is \<open>./restore\<close>.
  \<open>(False, ...)\<close> is a \<open>return False\<close>, with what was written before it.
\<close>

definition restore_backup ::
  "backup_env \<Rightarrow> string \<Rightarrow> backup_state \<Rightarrow> string \<Rightarrow> path option \<Rightarrow> bool \<times> backup_state" where
  "restore_backup env now st backup_id restore_path =
     (case get_backup_record (bm_db st) backup_id of
        None \<Rightarrow> (False, st)
      | Some backup_record \<Rightarrow>
          (case map_of backup_record ''backup_path'' of
             Some (SPath backup_path) \<Rightarrow>
               (case read_file (bm_fs st) backup_path of
                  None \<Rightarrow> (False, st)
                | Some artifact \<Rightarrow>
                    if \<not> verify_checksum env artifact (map_of backup_record ''checksum'')
                    then (False, st)
                    else
                      (case decrypt env artifact of
                         None \<Rightarrow> (False, st)
                       | Some plain \<Rightarrow>
                           let temp_backup_path = with_suffix backup_path ''.tmp'';
                               restore_dir = (case restore_path of
                                                None \<Rightarrow> work_dir env @ [''restore'']
                                              | Some p \<Rightarrow> p)
                           in case write_file (bm_fs st) temp_backup_path plain of
                                None \<Rightarrow> (False, st)
                              | Some fs1 \<Rightarrow>
                                  (case mkdir_p fs1 restore_dir of
                                     None \<Rightarrow> (False, st\<lparr>bm_fs := fs1\<rparr>)
                                   | Some fs2 \<Rightarrow>
                                       (case read_archive env plain of
                                          None \<Rightarrow> (False, st\<lparr>bm_fs := fs2\<rparr>)
                                        | Some members \<Rightarrow>
                                            (case extractall fs2 restore_dir members of
                                               (False, fs3) \<Rightarrow> (False, st\<lparr>bm_fs := fs3\<rparr>)
                                             | (True, fs3) \<Rightarrow>
                                                 (case unlink fs3 temp_backup_path of
                                                    None \<Rightarrow> (False, st\<lparr>bm_fs := fs3\<rparr>)
                                                  | Some fs4 \<Rightarrow>
                                                      (case map_of backup_record ''backup_type'' of
                                                         Some (SText btype) \<Rightarrow>
                                                           (True,
                                                            \<lparr>bm_fs = fs4,
                                                             bm_db = log_audit now (bm_db st)
                                                               ''backup_restored'' (Some backup_id)
                                                               (Some [(''backup_path'', JStr (path_str backup_path)),
                                                                      (''restore_path'', JStr (path_str restore_dir)),
                                                                      (''backup_type'', JStr btype)])
                                                               None\<rparr>)
                                                       | _ \<Rightarrow> (False, st\<lparr>bm_fs := fs4\<rparr>))))))))
           | _ \<Rightarrow> (False, st)))"

section \<open>Concrete stores and inputs\<close>

text \<open>A queue with one telemetry item, and one with three pending items.\<close>

definition one_item_db :: database where
  "one_item_db = snd (add_to_queue ''2024-01-01 00:00:00'' empty_db ''telemetry'' [(''cpu'', JInt 5)] 1)"


text \<open>A queue after a sync round: two failed items, one of them out of retries, one completed.\<close>

definition mixed_db :: database where
  "mixed_db = empty_db\<lparr>offline_queue :=
     [\<lparr>row_id = 1, queue_type = ''telemetry'', payload = [], priority = 1,
       created_at = ''2024-01-01 00:00:01'', retry_count = 1, max_retries = 3, status = ''failed''\<rparr>,
      \<lparr>row_id = 2, queue_type = ''telemetry'', payload = [], priority = 1,
       created_at = ''2024-01-01 00:00:02'', retry_count = 3, max_retries = 3, status = ''failed''\<rparr>,
      \<lparr>row_id = 3, queue_type = ''security_event'', payload = [], priority = 2,
       created_at = ''2024-01-01 00:00:03'', retry_count = 1, max_retries = 3, status = ''completed''\<rparr>],
     offline_queue_seq := 3\<rparr>"

text \<open>A backend that accepts every result, and one that answers 503.\<close>

definition online_env :: cp_env where
  "online_env = \<lparr>base_url = Some ''https://backend'', api_key = Some ''key'',
      handler = (\<lambda>ctype params. Inr [(''success'', JBool True)]),
      post_result = (\<lambda>now cid res. Status 200)\<rparr>"

definition offline_env :: cp_env where
  "offline_env = \<lparr>base_url = Some ''https://backend'', api_key = Some ''key'',
      handler = (\<lambda>ctype params. Inr [(''success'', JBool True)]),
      post_result = (\<lambda>now cid res. Status 503)\<rparr>"

definition fresh_state :: cp_state where
  "fresh_state = \<lparr>cp_db = empty_db, handler_calls = []\<rparr>"

definition get_status_c1 :: command where
  "get_status_c1 = \<lparr>cmd_id = Some ''c1'', cmd_type = Some ''get_status'', cmd_parameters = []\<rparr>"

definition get_logs_c2 :: command where
  "get_logs_c2 = \<lparr>cmd_id = Some ''c2'', cmd_type = Some ''get_logs'',
                   cmd_parameters = [(''lines'', JInt 10)]\<rparr>"

definition unknown_c3 :: command where
  "unknown_c3 = \<lparr>cmd_id = Some ''c3'', cmd_type = Some ''format_disk'', cmd_parameters = []\<rparr>"

text \<open>The processor after two commands whose results the backend did not take.\<close>

definition two_results_state :: cp_state where
  "two_results_state =
     process_commands offline_env ''2024-01-01T00:00:00'' fresh_state [get_status_c1, get_logs_c2]"

text \<open>The dispatcher with a cooldown of 300 s, and a store holding one completed backup command.\<close>

definition backup_done_db :: database where
  "backup_done_db = empty_db\<lparr>command_history :=
     [\<lparr>cr_id = 1, command_id = ''c7'', command_type = ''backup'', cr_parameters = [],
       cr_status = ''completed'', cr_result = Some [(''success'', JBool True)],
       cr_created_at = ''2024-01-01T10:00:00'', completed_at = Some ''2024-01-01T10:00:05''\<rparr>],
     command_history_seq := 1\<rparr>"

definition alert_env_300 :: alert_env where
  "alert_env_300 = \<lparr>alert_cooldown = 300, render_event = description, render_command = command_type\<rparr>"

definition fresh_alert_state :: alert_state where
  "fresh_alert_state = \<lparr>am_db = backup_done_db, last_alerts = Map.empty, emitted = []\<rparr>"

text \<open>The watcher with the default configuration, and rings holding a burst of events.\<close>

definition watcher_cfg :: detector_config where
  "watcher_cfg = \<lparr>suspicious_extensions = default_suspicious_extensions, max_file_size = 104857600\<rparr>"

definition locked_event :: "real \<Rightarrow> event_data" where
  "locked_event ts = \<lparr>ev_type = Modified, src_path = ''C:/docs/Report.LOCKED'', dest_path = None,
      ev_timestamp = ts, extension = ''.locked'', is_suspicious_extension = False,
      is_encryption_pattern = True\<rparr>"

definition moved_event :: "real \<Rightarrow> event_data" where
  "moved_event ts = \<lparr>ev_type = Moved, src_path = ''C:/docs/a.txt'', dest_path = Some ''C:/docs/b.txt'',
      ev_timestamp = ts, extension = ''.txt'', is_suspicious_extension = False,
      is_encryption_pattern = False\<rparr>"

definition busy_detector :: detector where
  "busy_detector = \<lparr>recent_events = replicate 20 (locked_event 1000), det_db = empty_db\<rparr>"

definition renaming_detector :: detector where
  "renaming_detector = \<lparr>recent_events = replicate 30 (moved_event 1000), det_db = empty_db\<rparr>"

definition at_1010 :: instant where
  "at_1010 = \<lparr>epoch = 1010, iso = ''2024-01-01 00:16:50''\<rparr>"

text \<open>
  A backup manager over stand-ins for the libraries: an archive format for the single
  member \<open>notes.txt\<close>, reversal as the cipher, length and first bytes as the digest. The
  shipped store is the one \<open>Database.initialize\<close> creates; the legacy store has a
  \<open>backup_records\<close> table that also carries \<open>checksum\<close> and \<open>description\<close>.
\<close>

definition demo_backup_env :: backup_env where
  "demo_backup_env = \<lparr>backup_dir = [''backups''], work_dir = [],
     max_backup_size = 1073741824,
     compress_archive = (\<lambda>ms. concat (map snd ms)),
     read_archive = (\<lambda>data. Some [([''notes.txt''], data)]),
     encrypt = rev, decrypt = (\<lambda>data. Some (rev data)),
     sha256_hex = (\<lambda>data. str_nat (length data) @ take 4 data)\<rparr>"

definition demo_fs :: fsnode where
  "demo_fs = Dir [(''backups'', Dir []),
                  (''home'', Dir [(''notes.txt'', File ''Test backup content'')])]"

definition shipped_state :: backup_state where
  "shipped_state = \<lparr>bm_fs = demo_fs, bm_db = initialize\<rparr>"

definition legacy_state :: backup_state where
  "legacy_state = \<lparr>bm_fs = demo_fs,
     bm_db = empty_db\<lparr>backup_records :=
       Some \<lparr>columns = backup_records_schema @ [''checksum'', ''description''], table_rows = []\<rparr>\<rparr>\<rparr>"

text \<open>The legacy store after a backup of \<open>notes.txt\<close>, and the same with the artifact overwritten.\<close>

definition backed_up_state :: backup_state where
  "backed_up_state =
     snd (create_backup demo_backup_env ''backup_1704103200_9f2c11aa'' ''20240101_100000''
            ''2024-01-01T10:00:00'' legacy_state [[''home'', ''notes.txt'']] ''test'' ''Test backup'')"

definition artifact_path :: path where
  "artifact_path = [''backups'', ''backup_backup_1704103200_9f2c11aa_20240101_100000.tar.gz.enc'']"

definition corrupted_state :: backup_state where
  "corrupted_state =
     backed_up_state\<lparr>bm_fs := (case write_file (bm_fs backed_up_state) artifact_path
                                       ''Xnetnoc pukcab tseT'' of
                                  None \<Rightarrow> bm_fs backed_up_state | Some t \<Rightarrow> t)\<rparr>"

section \<open>The durable queue\<close>

lemma length_patch_payload: "length (patch_payload item_id res rs) = length rs"
  by (simp add: patch_payload_def split: option.splits)

lemma patch_payload_keeps:
  "i < length rs \<Longrightarrow> retry_count (patch_payload item_id res rs ! i) = retry_count (rs ! i)
     \<and> status (patch_payload item_id res rs ! i) = status (rs ! i)
     \<and> row_id (patch_payload item_id res rs ! i) = row_id (rs ! i)"
  by (simp add: patch_payload_def split: option.splits)

text \<open>
  C9. One call of \<open>update_queue_item\<close> on the id of a stored item adds exactly one to the
  item's \<open>retry_count\<close> and sets its status to the argument, whatever the status is
  (\<open>completed\<close> as well as \<open>failed\<close>) and whether or not a result is merged into the payload;
  no row is added or removed.
\<close>

theorem update_queue_item_increments_retry_count:
  assumes "i < length (offline_queue db)" and "row_id (offline_queue db ! i) = item_id"
  shows "length (offline_queue (update_queue_item db item_id st result)) = length (offline_queue db)
    \<and> retry_count (offline_queue (update_queue_item db item_id st result) ! i)
        = retry_count (offline_queue db ! i) + 1
    \<and> status (offline_queue (update_queue_item db item_id st result) ! i) = st"
  using assms
  by (simp add: update_queue_item_def Let_def length_patch_payload patch_payload_keeps
      set_status_bump_def)

text \<open>
  C9, at a concrete input: marking the only item of \<open>one_item_db\<close> completed takes its
  \<open>retry_count\<close> from 0 to 1, and marking it failed does the same.
\<close>

theorem update_queue_item_increments_retry_count_witness:
  "retry_count (offline_queue one_item_db ! 0) = 0
   \<and> retry_count (offline_queue (update_queue_item one_item_db 1 ''completed'' None) ! 0) = 1
   \<and> status (offline_queue (update_queue_item one_item_db 1 ''completed'' None) ! 0) = ''completed''
   \<and> retry_count (offline_queue (update_queue_item one_item_db 1 ''failed'' None) ! 0) = 1"
proof -
  have h1: "0 < length (offline_queue one_item_db)"
    by (simp add: one_item_db_def add_to_queue_def empty_db_def Let_def)
  have h2: "row_id (offline_queue one_item_db ! 0) = 1"
    by (simp add: one_item_db_def add_to_queue_def empty_db_def Let_def)
  have r0: "retry_count (offline_queue one_item_db ! 0) = 0"
    by (simp add: one_item_db_def add_to_queue_def empty_db_def Let_def)
  show ?thesis
    using update_queue_item_increments_retry_count[OF h1 h2, of "''completed''" None]
      update_queue_item_increments_retry_count[OF h1 h2, of "''failed''" None] r0
    by simp
qed

text \<open>
  C7. One run of \<open>retry_failed_items\<close> turns every row that is \<open>failed\<close> with
  \<open>retry_count < max_retries\<close> into \<open>pending\<close> with \<open>retry_count = 0\<close>, and leaves every
  other row as it was, a failed row with \<open>retry_count \<ge> max_retries\<close> included; rows keep
  their places and the other tables are untouched.
\<close>

theorem retry_failed_items_resets_eligible_rows:
  "length (offline_queue (retry_failed_items db)) = length (offline_queue db)
   \<and> (\<forall>i < length (offline_queue db).
        offline_queue (retry_failed_items db) ! i =
          (if status (offline_queue db ! i) = ''failed''
              \<and> retry_count (offline_queue db ! i) < max_retries (offline_queue db ! i)
           then (offline_queue db ! i)\<lparr>status := ''pending'', retry_count := 0\<rparr>
           else offline_queue db ! i))
   \<and> retry_failed_items db = db\<lparr>offline_queue := offline_queue (retry_failed_items db)\<rparr>"
  by (simp add: retry_failed_items_def retry_row_def)

text \<open>
  C7, at a concrete input: of the three rows of \<open>mixed_db\<close> the sweep resets the failed row
  with one retry, and keeps the failed row that is out of retries and the completed row.
\<close>

theorem retry_failed_items_resets_eligible_rows_witness:
  "map (\<lambda>r. (status r, retry_count r)) (offline_queue mixed_db)
     = [(''failed'', 1), (''failed'', 3), (''completed'', 1)]
   \<and> map (\<lambda>r. (status r, retry_count r)) (offline_queue (retry_failed_items mixed_db))
     = [(''pending'', 0), (''failed'', 3), (''completed'', 1)]"
proof -
  have len: "length (offline_queue mixed_db) = 3"
    by (simp add: mixed_db_def empty_db_def)
  have rows: "map (\<lambda>r. (status r, retry_count r, max_retries r)) (offline_queue mixed_db)
     = [(''failed'', 1, 3), (''failed'', 3, 3), (''completed'', 1, 3)]"
    by (simp add: mixed_db_def empty_db_def)
  from retry_failed_items_resets_eligible_rows[of mixed_db]
  have "length (offline_queue (retry_failed_items mixed_db)) = 3"
    and "\<forall>i < 3. offline_queue (retry_failed_items mixed_db) ! i =
          (if status (offline_queue mixed_db ! i) = ''failed''
              \<and> retry_count (offline_queue mixed_db ! i) < max_retries (offline_queue mixed_db ! i)
           then (offline_queue mixed_db ! i)\<lparr>status := ''pending'', retry_count := 0\<rparr>
           else offline_queue mixed_db ! i)"
    using len by simp_all
  then have "offline_queue (retry_failed_items mixed_db) =
      map (\<lambda>r. if status r = ''failed'' \<and> retry_count r < max_retries r
                then r\<lparr>status := ''pending'', retry_count := 0\<rparr> else r) (offline_queue mixed_db)"
    using len by (intro nth_equalityI) simp_all
  then show ?thesis
    by (simp add: mixed_db_def empty_db_def)
qed




















section \<open>The command loop\<close>

subsection \<open>Handler invocations\<close>

lemma handler_calls_enqueue_result [simp]:
  "handler_calls (enqueue_result now s cid res) = handler_calls s"
  by (simp add: enqueue_result_def)

lemma handler_calls_send [simp]:
  "handler_calls (send_command_result env now s cid res) = handler_calls s"
  by (simp add: send_command_result_def split: http_outcome.splits)

lemma handler_calls_process_command:
  "handler_calls (process_command env now s c) =
     handler_calls s @ (if dispatched c then [handler_call_of c] else [])"
  by (simp add: process_command_def execute_command_def dispatched_def handler_call_of_def
      Let_def split: sum.splits)

lemma handler_calls_process_commands:
  "handler_calls (process_commands env now s cs) =
     handler_calls s @ map handler_call_of (filter dispatched cs)"
  by (induction cs arbitrary: s) (simp_all add: handler_calls_process_command)

lemma handler_calls_drain_item [simp]:
  "handler_calls (drain_item env now s item) = handler_calls s"
  by (simp add: drain_item_def Let_def split: option.splits)

lemma handler_calls_drain_items [simp]:
  "handler_calls (drain_items env now s items) = handler_calls s"
  by (induction items arbitrary: s) simp_all

lemma handler_calls_iteration:
  "handler_calls (command_loop_iteration env s poll) =
     handler_calls s @ map handler_call_of (filter dispatched (snd poll))"
  by (simp add: command_loop_iteration_def process_offline_queue_def handler_calls_process_commands)

subsection \<open>One record per command id\<close>

lemma history_enqueue_result [simp]:
  "command_history (cp_db (enqueue_result now s cid res)) = command_history (cp_db s)"
  by (simp add: enqueue_result_def add_to_queue_def Let_def)

lemma history_send [simp]:
  "command_history (cp_db (send_command_result env now s cid res)) = command_history (cp_db s)"
  by (simp add: send_command_result_def split: http_outcome.splits)

lemma history_update_queue_item [simp]:
  "command_history (update_queue_item d item_id st result) = command_history d"
  by (simp add: update_queue_item_def Let_def)

lemma history_drain_item [simp]:
  "command_history (cp_db (drain_item env now s item)) = command_history (cp_db s)"
  by (simp add: drain_item_def Let_def split: option.splits)

lemma history_drain_items [simp]:
  "command_history (cp_db (drain_items env now s items)) = command_history (cp_db s)"
  by (induction items arbitrary: s) simp_all

lemma distinct_record_command:
  "distinct (map command_id (command_history d)) \<Longrightarrow>
     distinct (map command_id (command_history (record_command now d cid ctype params st)))"
  by (auto simp: record_command_def Let_def distinct_map_filter)

lemma ids_update_command_status [simp]:
  "map command_id (command_history (update_command_status now d cid st res))
     = map command_id (command_history d)"
  by (simp add: update_command_status_def)

lemma distinct_process_command:
  "distinct (map command_id (command_history (cp_db s))) \<Longrightarrow>
     distinct (map command_id (command_history (cp_db (process_command env now s c))))"
  by (auto simp: process_command_def execute_command_def Let_def
      intro: distinct_record_command split: sum.splits)

lemma distinct_process_commands:
  "distinct (map command_id (command_history (cp_db s))) \<Longrightarrow>
     distinct (map command_id (command_history (cp_db (process_commands env now s cs))))"
  by (induction cs arbitrary: s) (simp_all add: distinct_process_command)

lemma distinct_iteration:
  "distinct (map command_id (command_history (cp_db s))) \<Longrightarrow>
     distinct (map command_id (command_history (cp_db (command_loop_iteration env s poll))))"
  by (simp add: command_loop_iteration_def process_offline_queue_def distinct_process_commands)

lemma distinct_command_loop:
  "distinct (map command_id (command_history (cp_db s))) \<Longrightarrow>
     distinct (map command_id (command_history (cp_db (command_loop env s polls))))"
  by (induction polls arbitrary: s) (simp_all add: distinct_iteration)

lemma handler_calls_command_loop:
  "handler_calls (command_loop env s polls) =
     handler_calls s @ map handler_call_of (filter dispatched (concat (map snd polls)))"
  by (induction polls arbitrary: s) (simp_all add: handler_calls_iteration)

text \<open>
  C1, as stated, fails: the same command \<open>{id: c1, type: get_status}\<close> served in two
  consecutive polls runs the handler twice, while \<open>command_history\<close> ends with the single
  record of \<open>c1\<close>.
\<close>

theorem duplicate_command_runs_handler_twice:
  "handler_calls (command_loop online_env fresh_state
       [(''2024-01-01T00:00:00'', [get_status_c1]), (''2024-01-01T00:01:00'', [get_status_c1])])
     = [(''get_status'', []), (''get_status'', [])]
   \<and> map command_id (command_history (cp_db (command_loop online_env fresh_state
       [(''2024-01-01T00:00:00'', [get_status_c1]), (''2024-01-01T00:01:00'', [get_status_c1])])))
     = [''c1'']"
  by code_simp

text \<open>
  C1, amended. Across any number of poll responses the handler runs exactly once for
  each received command that has an id and a supported type, in the order received, so
  a duplicate of an already-recorded \<open>command_id\<close> runs the handler again; what the
  insert keeps unique is the record: \<open>command_history\<close> never holds two records with the
  same \<open>command_id\<close>.
\<close>

theorem handler_runs_once_per_received_command:
  assumes "distinct (map command_id (command_history (cp_db s)))"
  shows "handler_calls (command_loop env s polls) =
           handler_calls s @ map handler_call_of (filter dispatched (concat (map snd polls)))
       \<and> distinct (map command_id (command_history (cp_db (command_loop env s polls))))"
  using assms by (simp add: handler_calls_command_loop distinct_command_loop)

text \<open>
  C1 amended, at a concrete input: two polls carrying \<open>c1\<close>, an unsupported command,
  \<open>c2\<close> and \<open>c1\<close> again give three handler runs, two of them for \<open>c1\<close>.
\<close>

theorem handler_runs_once_per_received_command_witness:
  "handler_calls (command_loop online_env fresh_state
       [(''2024-01-01T00:00:00'', [get_status_c1, unknown_c3]),
        (''2024-01-01T00:01:00'', [get_logs_c2, get_status_c1])])
     = [(''get_status'', []), (''get_logs'', [(''lines'', JInt 10)]), (''get_status'', [])]"
proof -
  have h: "distinct (map command_id (command_history (cp_db fresh_state)))"
    by (simp add: fresh_state_def empty_db_def)
  have d: "filter dispatched [get_status_c1, unknown_c3, get_logs_c2, get_status_c1]
      = [get_status_c1, get_logs_c2, get_status_c1]"
    by (simp add: dispatched_def get_status_c1_def unknown_c3_def get_logs_c2_def
        command_handlers_def)
  show ?thesis
    using handler_runs_once_per_received_command[OF h, of online_env
        "[(''2024-01-01T00:00:00'', [get_status_c1, unknown_c3]),
          (''2024-01-01T00:01:00'', [get_logs_c2, get_status_c1])]"] d
    by (simp add: handler_call_of_def fresh_state_def get_status_c1_def get_logs_c2_def)
qed

subsection \<open>Results that could not be posted\<close>

lemma queue_enqueue_result:
  "offline_queue (cp_db (enqueue_result now s cid res)) =
     offline_queue (cp_db s) @
       [\<lparr>row_id = offline_queue_seq (cp_db s) + 1, queue_type = ''command_result'',
         payload = [(''command_id'', cid), (''result'', res)],
         priority = 0, created_at = now, retry_count = 0, max_retries = 3, status = ''pending''\<rparr>]"
  by (simp add: enqueue_result_def add_to_queue_def add_to_queue_default_priority_def Let_def)

lemma seq_enqueue_result:
  "offline_queue_seq (cp_db (enqueue_result now s cid res)) = offline_queue_seq (cp_db s) + 1"
  by (simp add: enqueue_result_def add_to_queue_def Let_def)

lemma send_fails:
  "post_fails env now cid res \<Longrightarrow>
     send_command_result env now s cid res = enqueue_result now s cid res"
  by (auto simp: send_command_result_def post_fails_def split: http_outcome.splits)

lemma send_succeeds:
  "\<not> post_fails env now cid res \<Longrightarrow> send_command_result env now s cid res = s"
  by (auto simp: send_command_result_def post_fails_def split: http_outcome.splits)

text \<open>
  C8. Whenever the POST of a command result fails (no backend configured, a status
  other than 200, or an exception), \<open>_send_command_result\<close> appends one pending queue item
  of type \<open>command_result\<close> whose payload holds the \<open>command_id\<close> and the result; the
  item's priority is 0, the default of \<open>add_to_queue\<close>, and not the 3 the claim states.
\<close>

theorem failed_post_enqueues_default_priority:
  assumes "post_fails env now cid res"
  shows "offline_queue (cp_db (send_command_result env now s cid res)) =
     offline_queue (cp_db s) @
       [\<lparr>row_id = offline_queue_seq (cp_db s) + 1, queue_type = ''command_result'',
         payload = [(''command_id'', cid), (''result'', res)],
         priority = 0, created_at = now, retry_count = 0, max_retries = 3, status = ''pending''\<rparr>]"
  using assms by (simp add: send_fails queue_enqueue_result)

text \<open>
  C8, at the failing input: the backend answers 503 to the result of \<open>c1\<close>. The item
  enqueued has priority 0; \<open>OfflineQueue.queue_command_result\<close> on the same result gives
  priority 3.
\<close>

theorem failed_post_enqueues_default_priority_witness:
  "map (\<lambda>r. (queue_type r, payload r, priority r, status r))
     (offline_queue (cp_db (send_command_result offline_env ''2024-01-01T00:00:00'' fresh_state
        (JStr ''c1'') (JObj [(''success'', JBool True)]))))
   = [(''command_result'',
       [(''command_id'', JStr ''c1''), (''result'', JObj [(''success'', JBool True)])],
       0, ''pending'')]
   \<and> map priority (offline_queue (queue_command_result ''2024-01-01T00:00:00'' empty_db
        ''c1'' [(''success'', JBool True)])) = [3]"
proof -
  have h: "post_fails offline_env ''2024-01-01T00:00:00'' (JStr ''c1'')
             (JObj [(''success'', JBool True)])"
    by (simp add: post_fails_def offline_env_def)
  have q: "map priority (offline_queue (queue_command_result ''2024-01-01T00:00:00'' empty_db
        ''c1'' [(''success'', JBool True)])) = [3]"
    by (simp add: queue_command_result_def add_to_queue_def empty_db_def Let_def)
  show ?thesis
    using failed_post_enqueues_default_priority[OF h, of fresh_state] q
    by (simp add: fresh_state_def empty_db_def)
qed

subsection \<open>The drain of queued results\<close>

lemma queue_drain_item:
  assumes "has_result_payload item"
  shows "offline_queue (cp_db (drain_item env now s item)) =
     map (set_status_bump (row_id item) ''completed'')
       (offline_queue (cp_db s) @
          (if item_post_fails env now item
           then [requeue_row now (offline_queue_seq (cp_db s) + 1) item] else []))"
    and "offline_queue_seq (cp_db (drain_item env now s item)) =
       offline_queue_seq (cp_db s) + (if item_post_fails env now item then 1 else 0)"
  using assms
  by (auto simp: drain_item_def has_result_payload_def item_post_fails_def Let_def
      payload_command_id_def payload_result_def requeue_row_def update_queue_item_def
      send_fails send_succeeds queue_enqueue_result seq_enqueue_result)

lemma completed_many_bump:
  "completed_many ids (set_status_bump i ''completed'' r) = completed_many (i # ids) r"
  by (cases "i \<in> set ids") (auto simp: completed_many_def set_status_bump_def)

lemma completed_many_fresh:
  "\<forall>i \<in> set ids. i < row_id r \<Longrightarrow> completed_many ids r = r"
  by (auto simp: completed_many_def)

lemma bump_fresh: "i < row_id r \<Longrightarrow> set_status_bump i st r = r"
  by (simp add: set_status_bump_def)

lemma row_id_requeue_row [simp]: "row_id (requeue_row now n item) = n"
  by (simp add: requeue_row_def)

lemma drain_items_closed_form:
  assumes "\<forall>item \<in> set items. has_result_payload item"
      and "\<forall>item \<in> set items. row_id item \<le> offline_queue_seq (cp_db s)"
  shows "offline_queue (cp_db (drain_items env now s items)) =
     map (completed_many (map row_id items)) (offline_queue (cp_db s))
       @ requeued now (offline_queue_seq (cp_db s)) (filter (item_post_fails env now) items)"
  using assms
proof (induction items arbitrary: s)
  case Nil
  then show ?case by (simp add: completed_many_def)
next
  case (Cons item items)
  let ?s1 = "drain_item env now s item"
  let ?n = "offline_queue_seq (cp_db s)"
  have wf: "has_result_payload item" and le: "row_id item \<le> ?n"
    using Cons.prems by simp_all
  have seq1: "offline_queue_seq (cp_db ?s1) = ?n + (if item_post_fails env now item then 1 else 0)"
    by (rule queue_drain_item(2)[OF wf])
  have ids1: "\<forall>x \<in> set items. row_id x \<le> offline_queue_seq (cp_db ?s1)"
    using Cons.prems(2) seq1 by auto
  have IH: "offline_queue (cp_db (drain_items env now ?s1 items)) =
     map (completed_many (map row_id items)) (offline_queue (cp_db ?s1))
       @ requeued now (offline_queue_seq (cp_db ?s1)) (filter (item_post_fails env now) items)"
    using Cons.IH[of ?s1] Cons.prems(1) ids1 by simp
  have fresh: "completed_many (map row_id items)
        (set_status_bump (row_id item) ''completed'' (requeue_row now (?n + 1) item))
      = requeue_row now (?n + 1) item"
  proof -
    have "set_status_bump (row_id item) ''completed'' (requeue_row now (?n + 1) item)
        = requeue_row now (?n + 1) item"
      using le by (simp add: bump_fresh)
    moreover have "completed_many (map row_id items) (requeue_row now (?n + 1) item)
        = requeue_row now (?n + 1) item"
      using Cons.prems(2) by (intro completed_many_fresh) auto
    ultimately show ?thesis by simp
  qed
  show ?case
  proof (cases "item_post_fails env now item")
    case True
    then show ?thesis
      using IH seq1 fresh by (simp add: queue_drain_item(1)[OF wf] completed_many_bump)
  next
    case False
    then show ?thesis
      using IH seq1 by (simp add: queue_drain_item(1)[OF wf] completed_many_bump)
  qed
qed

lemma requeued_rows:
  "r \<in> set (requeued now n items) \<Longrightarrow>
     n < row_id r \<and> status r = ''pending'' \<and> queue_type r = ''command_result'' \<and> priority r = 0
     \<and> (\<exists>item \<in> set items. payload r =
           [(''command_id'', payload_command_id item), (''result'', payload_result item)])"
  by (induction items arbitrary: n) (fastforce simp: requeue_row_def)+

lemma map_payload_requeued:
  "map payload (requeued now n items) =
     map (\<lambda>item. [(''command_id'', payload_command_id item), (''result'', payload_result item)]) items"
  by (induction items arbitrary: n) (simp_all add: requeue_row_def)

lemma claimed_subset:
  "item \<in> set (get_queue_items d (Some ''command_result'') ''pending'' 10) \<Longrightarrow>
     item \<in> set (offline_queue d) \<and> queue_type item = ''command_result'' \<and> status item = ''pending''"
  by (auto simp: get_queue_items_def sql_limit_def order_by_priority_created_def
      dest!: in_set_takeD)

text \<open>
  C10. In the command loop's drain of pending \<open>command_result\<close> items (payloads holding
  \<open>command_id\<close> and \<open>result\<close>, as every enqueue of that type writes them; row ids issued by
  the store's counter), every claimed item is marked \<open>completed\<close>, also when the POST of
  its result fails, and none is marked \<open>failed\<close>; for each claimed item whose POST fails, a
  new \<open>pending\<close> \<open>command_result\<close> row with the same \<open>command_id\<close> and \<open>result\<close> is appended,
  so the queue grows by one row per failed attempt.
\<close>

theorem drain_completes_claimed_and_requeues_failed:
  assumes inv: "\<forall>r \<in> set (offline_queue (cp_db s)). row_id r \<le> offline_queue_seq (cp_db s)"
      and wf: "\<forall>r \<in> set (offline_queue (cp_db s)).
                 queue_type r = ''command_result'' \<and> status r = ''pending'' \<longrightarrow> has_result_payload r"
  shows "offline_queue (cp_db (process_offline_queue env now s)) =
           map (completed_many
                  (map row_id (get_queue_items (cp_db s) (Some ''command_result'') ''pending'' 10)))
               (offline_queue (cp_db s))
           @ requeued now (offline_queue_seq (cp_db s))
               (filter (item_post_fails env now)
                  (get_queue_items (cp_db s) (Some ''command_result'') ''pending'' 10))
    \<and> (\<forall>r \<in> set (offline_queue (cp_db (process_offline_queue env now s))).
          row_id r \<in> row_id ` set (get_queue_items (cp_db s) (Some ''command_result'') ''pending'' 10)
          \<longrightarrow> status r = ''completed'')
    \<and> (\<forall>r \<in> set (requeued now (offline_queue_seq (cp_db s))
               (filter (item_post_fails env now)
                  (get_queue_items (cp_db s) (Some ''command_result'') ''pending'' 10))).
          status r = ''pending'' \<and> queue_type r = ''command_result'')
    \<and> map payload (requeued now (offline_queue_seq (cp_db s))
               (filter (item_post_fails env now)
                  (get_queue_items (cp_db s) (Some ''command_result'') ''pending'' 10)))
        = map (\<lambda>item. [(''command_id'', payload_command_id item), (''result'', payload_result item)])
            (filter (item_post_fails env now)
               (get_queue_items (cp_db s) (Some ''command_result'') ''pending'' 10))"
proof -
  let ?claimed = "get_queue_items (cp_db s) (Some ''command_result'') ''pending'' 10"
  let ?new = "requeued now (offline_queue_seq (cp_db s)) (filter (item_post_fails env now) ?claimed)"
  have c_wf: "\<forall>item \<in> set ?claimed. has_result_payload item"
    using wf claimed_subset by blast
  have c_le: "\<forall>item \<in> set ?claimed. row_id item \<le> offline_queue_seq (cp_db s)"
    using inv claimed_subset by blast
  have closed: "offline_queue (cp_db (process_offline_queue env now s)) =
      map (completed_many (map row_id ?claimed)) (offline_queue (cp_db s)) @ ?new"
    unfolding process_offline_queue_def by (rule drain_items_closed_form[OF c_wf c_le])
  have new_rows: "\<forall>r \<in> set ?new. status r = ''pending'' \<and> queue_type r = ''command_result''
      \<and> offline_queue_seq (cp_db s) < row_id r"
    using requeued_rows by blast
  have fin: "\<forall>r \<in> set (offline_queue (cp_db (process_offline_queue env now s))).
      row_id r \<in> row_id ` set ?claimed \<longrightarrow> status r = ''completed''"
  proof (intro ballI impI)
    fix r
    assume r: "r \<in> set (offline_queue (cp_db (process_offline_queue env now s)))"
      and cl: "row_id r \<in> row_id ` set ?claimed"
    from r closed consider
        (old) x where "x \<in> set (offline_queue (cp_db s))" "r = completed_many (map row_id ?claimed) x"
      | (new) "r \<in> set ?new"
      by auto
    then show "status r = ''completed''"
    proof cases
      case old
      then show ?thesis using cl by (auto simp: completed_many_def)
    next
      case new
      then have "offline_queue_seq (cp_db s) < row_id r" using new_rows by blast
      moreover from cl obtain item where "item \<in> set ?claimed" "row_id r = row_id item" by auto
      ultimately show ?thesis using c_le by fastforce
    qed
  qed
  show ?thesis
    using closed fin new_rows by (simp add: map_payload_requeued)
qed

lemma two_results_queue:
  "offline_queue (cp_db two_results_state) =
     [\<lparr>row_id = 1, queue_type = ''command_result'',
       payload = [(''command_id'', JStr ''c1''), (''result'', JObj [(''success'', JBool True)])],
       priority = 0, created_at = ''2024-01-01T00:00:00'', retry_count = 0, max_retries = 3,
       status = ''pending''\<rparr>,
      \<lparr>row_id = 2, queue_type = ''command_result'',
       payload = [(''command_id'', JStr ''c2''), (''result'', JObj [(''success'', JBool True)])],
       priority = 0, created_at = ''2024-01-01T00:00:00'', retry_count = 0, max_retries = 3,
       status = ''pending''\<rparr>]
   \<and> offline_queue_seq (cp_db two_results_state) = 2"
  by code_simp

text \<open>
  C10, at a concrete input: with the backend answering 503, the drain of the two queued
  results marks both completed (one status update each) and appends two new pending
  rows carrying the payloads of \<open>c1\<close> and \<open>c2\<close>.
\<close>

theorem drain_completes_claimed_and_requeues_failed_witness:
  "map (\<lambda>r. (row_id r, status r, retry_count r))
     (offline_queue (cp_db (process_offline_queue offline_env ''2024-01-01T00:01:00''
        two_results_state)))
     = [(1, ''completed'', 1), (2, ''completed'', 1), (3, ''pending'', 0), (4, ''pending'', 0)]
   \<and> map payload (drop 2
       (offline_queue (cp_db (process_offline_queue offline_env ''2024-01-01T00:01:00''
          two_results_state))))
     = [[(''command_id'', JStr ''c1''), (''result'', JObj [(''success'', JBool True)])],
        [(''command_id'', JStr ''c2''), (''result'', JObj [(''success'', JBool True)])]]"
proof -
  have inv: "\<forall>r \<in> set (offline_queue (cp_db two_results_state)).
      row_id r \<le> offline_queue_seq (cp_db two_results_state)"
    using two_results_queue by simp
  have wf: "\<forall>r \<in> set (offline_queue (cp_db two_results_state)).
      queue_type r = ''command_result'' \<and> status r = ''pending'' \<longrightarrow> has_result_payload r"
    using two_results_queue by (simp add: has_result_payload_def)
  have claimed: "get_queue_items (cp_db two_results_state) (Some ''command_result'') ''pending'' 10
      = offline_queue (cp_db two_results_state)"
    using two_results_queue
    by (simp add: get_queue_items_def sql_limit_def order_by_priority_created_def
        less_eq_prod_def)
  have fails: "filter (item_post_fails offline_env ''2024-01-01T00:01:00'')
      (offline_queue (cp_db two_results_state)) = offline_queue (cp_db two_results_state)"
    using two_results_queue
    by (simp add: item_post_fails_def post_fails_def offline_env_def)
  show ?thesis
    using drain_completes_claimed_and_requeues_failed[OF inv wf, of offline_env
        "''2024-01-01T00:01:00''"] claimed fails two_results_queue
    by (simp add: completed_many_def requeue_row_def payload_command_id_def payload_result_def)
qed


section \<open>The alert dispatcher\<close>

lemma cooldown_honored_snoc:
  "cooldown_honored cd (xs @ [y]) \<longleftrightarrow>
     cooldown_honored cd xs
     \<and> (\<forall>x \<in> set xs. emission_key x \<noteq> emission_key y \<or> real_of_int cd \<le> \<bar>fst y - fst x\<bar>)"
proof (induction xs)
  case Nil
  then show ?case by simp
next
  case (Cons x xs)
  have "\<bar>fst y - fst x\<bar> = \<bar>fst x - fst y\<bar>" by simp
  then show ?case
    using Cons by (auto simp: list_all_iff)
qed

lemma emitted_mark_event_resolved [simp]:
  "emitted (mark_event_resolved s eid) = emitted s"
  "last_alerts (mark_event_resolved s eid) = last_alerts s"
  by (simp_all add: mark_event_resolved_def)

lemma emitted_send_alert [simp]:
  "emitted (send_alert t s atype message sev) = emitted s @ [(epoch t, atype, sev)]"
  "last_alerts (send_alert t s atype message sev) = last_alerts s"
  by (simp_all add: send_alert_def)

text \<open>
  The security-event path keeps the cooldown: if the emissions so far honour it, every
  emission is no later than the time \<open>last_alerts\<close> holds for its key, and no recorded
  time is later than the present, then the same holds after one more event.
\<close>

lemma process_security_event_invariant:
  assumes honored: "cooldown_honored (alert_cooldown env) (emitted s)"
      and tracked: "\<forall>x \<in> set (emitted s). \<exists>l. last_alerts s (emission_key x) = Some l \<and> fst x \<le> l"
      and past: "\<forall>k l. last_alerts s k = Some l \<longrightarrow> l \<le> epoch t"
  shows "cooldown_honored (alert_cooldown env) (emitted (process_security_event env t s ev))
     \<and> (\<forall>x \<in> set (emitted (process_security_event env t s ev)).
           \<exists>l. last_alerts (process_security_event env t s ev) (emission_key x) = Some l \<and> fst x \<le> l)
     \<and> (\<forall>k l. last_alerts (process_security_event env t s ev) k = Some l \<longrightarrow> l \<le> epoch t)"
proof -
  let ?k = "alert_key (event_type ev) (severity ev)"
  let ?new = "(epoch t, event_type ev, severity ev)"
  have key_new: "emission_key ?new = ?k" by (simp add: emission_key_def)
  show ?thesis
  proof (cases "\<exists>l. last_alerts s ?k = Some l \<and> epoch t - l < real_of_int (alert_cooldown env)")
    case True
    then have "process_security_event env t s ev = s"
      by (auto simp: process_security_event_def should_send_alert_def Let_def)
    then show ?thesis using assms by simp
  next
    case False
    then have em: "emitted (process_security_event env t s ev) = emitted s @ [?new]"
      and la: "last_alerts (process_security_event env t s ev) = (last_alerts s)(?k \<mapsto> epoch t)"
      by (auto simp: process_security_event_def should_send_alert_def Let_def split: option.splits)
    have far: "\<forall>x \<in> set (emitted s). emission_key x \<noteq> ?k
        \<or> real_of_int (alert_cooldown env) \<le> \<bar>epoch t - fst x\<bar>"
    proof
      fix x assume x: "x \<in> set (emitted s)"
      show "emission_key x \<noteq> ?k \<or> real_of_int (alert_cooldown env) \<le> \<bar>epoch t - fst x\<bar>"
      proof (cases "emission_key x = ?k")
        case same: True
        from tracked x same obtain l where l: "last_alerts s ?k = Some l" "fst x \<le> l" by auto
        with False have "real_of_int (alert_cooldown env) \<le> epoch t - l" by auto
        with l(2) show ?thesis by linarith
      next
        case False
        then show ?thesis by simp
      qed
    qed
    have h1: "cooldown_honored (alert_cooldown env) (emitted s @ [?new])"
      using honored far by (simp add: cooldown_honored_snoc key_new)
    have h2: "\<forall>x \<in> set (emitted s @ [?new]).
        \<exists>l. ((last_alerts s)(?k \<mapsto> epoch t)) (emission_key x) = Some l \<and> fst x \<le> l"
    proof
      fix x assume "x \<in> set (emitted s @ [?new])"
      then consider (old) "x \<in> set (emitted s)" | (new) "x = ?new" by auto
      then show "\<exists>l. ((last_alerts s)(?k \<mapsto> epoch t)) (emission_key x) = Some l \<and> fst x \<le> l"
      proof cases
        case old
        from tracked old obtain l where l: "last_alerts s (emission_key x) = Some l" "fst x \<le> l"
          by auto
        with past have "fst x \<le> epoch t" by force
        with l show ?thesis by auto
      next
        case new
        then show ?thesis by (simp add: key_new)
      qed
    qed
    have h3: "\<forall>k l. ((last_alerts s)(?k \<mapsto> epoch t)) k = Some l \<longrightarrow> l \<le> epoch t"
      using past by auto
    show ?thesis unfolding em la using h1 h2 h3 by blast
  qed
qed

text \<open>
  Over a run of the security-event path whose clock does not go back, started with
  nothing emitted, any two emissions with the same dedup key are at least
  \<open>alert_cooldown\<close> seconds apart.
\<close>

lemma security_run_invariant:
  assumes "cooldown_honored (alert_cooldown env) (emitted s)"
      and "\<forall>x \<in> set (emitted s). \<exists>l. last_alerts s (emission_key x) = Some l \<and> fst x \<le> l"
      and "\<forall>k l. last_alerts s k = Some l \<longrightarrow> l \<le> lo"
      and "sorted (map (\<lambda>step. epoch (fst step)) steps)"
      and "\<forall>step \<in> set steps. lo \<le> epoch (fst step)"
  shows "cooldown_honored (alert_cooldown env) (emitted (security_run env s steps))"
  using assms
proof (induction steps arbitrary: s lo)
  case Nil
  then show ?case by simp
next
  case (Cons step steps)
  let ?s1 = "process_security_event env (fst step) s (snd step)"
  have past: "\<forall>k l. last_alerts s k = Some l \<longrightarrow> l \<le> epoch (fst step)"
    using Cons.prems(3,5) by force
  note inv1 = process_security_event_invariant[OF Cons.prems(1,2) past, of "snd step"]
  have later: "\<forall>x \<in> set steps. epoch (fst step) \<le> epoch (fst x)"
    using Cons.prems(4) by auto
  have "cooldown_honored (alert_cooldown env) (emitted (security_run env ?s1 steps))"
    using Cons.IH[of ?s1 "epoch (fst step)"] inv1 later Cons.prems(4) by simp
  then show ?case by simp
qed

lemma security_path_honors_cooldown:
  assumes "emitted s = []"
      and "last_alerts s = Map.empty"
      and "sorted (map (\<lambda>step. epoch (fst step)) steps)"
  shows "cooldown_honored (alert_cooldown env) (emitted (security_run env s steps))"
proof (cases steps)
  case Nil
  then show ?thesis using assms by simp
next
  case (Cons step rest)
  have "\<forall>x \<in> set steps. epoch (fst step) \<le> epoch (fst x)"
    using assms(3) Cons by auto
  then show ?thesis
    using security_run_invariant[of env s "epoch (fst step)" steps] assms by simp
qed

text \<open>
  C2. The command path of the dispatcher does not consult the cooldown: for every
  command of a type that alerts, \<open>_process_command_event\<close> emits \<open>command_executed\<close> with
  severity \<open>medium\<close> at once, whatever \<open>last_alerts\<close> holds, and leaves \<open>last_alerts\<close> as it
  was. So two emissions with the key \<open>command_executed_medium\<close> can be closer than
  \<open>alert_cooldown\<close>; the security-event path keeps the cooldown
  (\<open>security_path_honors_cooldown\<close>).
\<close>

theorem command_alert_ignores_cooldown:
  assumes "command_type c \<in> set alerting_command_types"
  shows "emitted (process_command_event env t s c)
           = emitted s @ [(epoch t, ''command_executed'', ''medium'')]
       \<and> last_alerts (process_command_event env t s c) = last_alerts s"
  using assms by (simp add: process_command_event_def)

lemma two_ticks_emitted:
  "emitted (alert_loop alert_env_300 fresh_alert_state
      [(\<lparr>epoch = 1000, iso = ''2024-01-01 10:01:00''\<rparr>, ''2024-01-01 09:01:00''),
       (\<lparr>epoch = 1060, iso = ''2024-01-01 10:02:00''\<rparr>, ''2024-01-01 09:02:00'')])
   = [(1000, ''command_executed'', ''medium''), (1060, ''command_executed'', ''medium'')]"
  by code_simp

text \<open>
  C2, at the failing input: one completed \<open>backup\<close> command in \<open>command_history\<close>, cooldown
  300 s, two ticks of the alert loop 60 s apart. The same alert is emitted at both ticks.
\<close>

theorem command_alert_ignores_cooldown_witness:
  "emitted (alert_loop alert_env_300 fresh_alert_state
      [(\<lparr>epoch = 1000, iso = ''2024-01-01 10:01:00''\<rparr>, ''2024-01-01 09:01:00''),
       (\<lparr>epoch = 1060, iso = ''2024-01-01 10:02:00''\<rparr>, ''2024-01-01 09:02:00'')])
   = [(1000, ''command_executed'', ''medium''), (1060, ''command_executed'', ''medium'')]
   \<and> \<not> cooldown_honored (alert_cooldown alert_env_300)
         (emitted (alert_loop alert_env_300 fresh_alert_state
            [(\<lparr>epoch = 1000, iso = ''2024-01-01 10:01:00''\<rparr>, ''2024-01-01 09:01:00''),
             (\<lparr>epoch = 1060, iso = ''2024-01-01 10:02:00''\<rparr>, ''2024-01-01 09:02:00'')]))
   \<and> emitted (process_command_event alert_env_300 \<lparr>epoch = 1060, iso = ''2024-01-01 10:02:00''\<rparr>
        (fresh_alert_state\<lparr>emitted := [(1000, ''command_executed'', ''medium'')]\<rparr>)
        (hd (command_history backup_done_db)))
     = [(1000, ''command_executed'', ''medium''), (1060, ''command_executed'', ''medium'')]"
proof -
  have h: "command_type (hd (command_history backup_done_db)) \<in> set alerting_command_types"
    by (simp add: backup_done_db_def empty_db_def alerting_command_types_def)
  show ?thesis
    using command_alert_ignores_cooldown[OF h, of alert_env_300
        "\<lparr>epoch = 1060, iso = ''2024-01-01 10:02:00''\<rparr>"
        "fresh_alert_state\<lparr>emitted := [(1000, ''command_executed'', ''medium'')]\<rparr>"]
      two_ticks_emitted
    by (simp add: alert_env_300_def emission_key_def)
qed


section \<open>The file watcher\<close>

lemma kinds_partition:
  "count_kind Created evs + count_kind Modified evs + count_kind Moved evs + count_kind Deleted evs
     = length evs"
proof (induction evs)
  case Nil
  then show ?case by (simp add: count_kind_def)
next
  case (Cons e evs)
  then show ?case by (cases "ev_type e") (simp_all add: count_kind_def)
qed

lemma pattern_alerts_names:
  "map fst (pattern_alerts now evs) =
     (if length (last_minute now evs) > 50 then [''mass_file_operations''] else []) @
     (if count_kind Moved (last_minute now evs) > 30 then [''mass_renames''] else []) @
     (if length (filter is_suspicious_extension (last_minute now evs)) > 10
      then [''suspicious_extensions''] else []) @
     (if length (filter is_encryption_pattern (last_minute now evs)) > 5
      then [''encryption_patterns''] else []) @
     (if count_kind Modified (last_minute now evs) > 20 then [''rapid_modifications''] else [])"
proof (cases "last_minute now evs = []")
  case True
  then show ?thesis by (simp add: pattern_alerts_def count_kind_def)
next
  case False
  have "count_kind Created (last_minute now evs) + count_kind Modified (last_minute now evs)
      + count_kind Moved (last_minute now evs) + count_kind Deleted (last_minute now evs)
      = length (last_minute now evs)"
    by (rule kinds_partition)
  then show ?thesis
    using False
    by (simp add: pattern_alerts_def Let_def count_kind_def mass_write_threshold_def
        mass_rename_threshold_def suspicious_extension_threshold_def)
qed

lemma has_keys_nonempty:
  "map_of d ''severity'' = Some v \<Longrightarrow> truthy_dict (Some d)"
  by (cases d) simp_all

lemma trigger_alert_rows:
  assumes "\<forall>a \<in> set as. \<exists>sev msg. map_of (snd a) ''severity'' = Some (JStr sev)
                                  \<and> map_of (snd a) ''message'' = Some (JStr msg)"
  shows "security_events (foldl (trigger_alert now) d as) =
           security_events d @ alert_events now (security_events_seq d) as
       \<and> security_events_seq (foldl (trigger_alert now) d as) = security_events_seq d + int (length as)
       \<and> audit_log (foldl (trigger_alert now) d as) = audit_log d @ alert_audits now as"
  using assms
proof (induction as arbitrary: d)
  case Nil
  then show ?case by (simp add: alert_audits_def)
next
  case (Cons a as)
  from Cons.prems obtain sev msg where
    a: "map_of (snd a) ''severity'' = Some (JStr sev)" "map_of (snd a) ''message'' = Some (JStr msg)"
    by auto
  let ?d1 = "trigger_alert now d a"
  have ne: "truthy_dict (Some (snd a))" using a(1) by (rule has_keys_nonempty)
  have se1: "security_events ?d1 = security_events d @ alert_events now (security_events_seq d) [a]"
    and seq1: "security_events_seq ?d1 = security_events_seq d + 1"
    and au1: "audit_log ?d1 = audit_log d @ alert_audits now [a]"
    using a ne by (simp_all add: trigger_alert_def log_audit_def log_security_event_def Let_def
        falsy_to_null_def alert_audits_def)
  have IH: "security_events (foldl (trigger_alert now) ?d1 as) =
           security_events ?d1 @ alert_events now (security_events_seq ?d1) as
       \<and> security_events_seq (foldl (trigger_alert now) ?d1 as) = security_events_seq ?d1 + int (length as)
       \<and> audit_log (foldl (trigger_alert now) ?d1 as) = audit_log ?d1 @ alert_audits now as"
    using Cons.IH[of ?d1] Cons.prems by simp
  show ?case
    using IH se1 seq1 au1 by (simp add: alert_audits_def)
qed

lemma pattern_alerts_keys:
  "\<forall>a \<in> set (pattern_alerts now evs). \<exists>sev msg. map_of (snd a) ''severity'' = Some (JStr sev)
                                  \<and> map_of (snd a) ''message'' = Some (JStr msg)"
  by (auto simp: pattern_alerts_def Let_def split: if_splits)

lemma check_rows:
  "security_events (det_db (check_ransomware_patterns t det)) =
     security_events (det_db det)
       @ alert_events (iso t) (security_events_seq (det_db det))
           (pattern_alerts (epoch t) (recent_events det))
   \<and> audit_log (det_db (check_ransomware_patterns t det)) =
     audit_log (det_db det) @ alert_audits (iso t) (pattern_alerts (epoch t) (recent_events det))
   \<and> recent_events (check_ransomware_patterns t det) = recent_events det"
  using trigger_alert_rows[OF pattern_alerts_keys, of "iso t" "det_db det" "epoch t" "recent_events det"]
  by (simp add: check_ransomware_patterns_def)

lemma pattern_alerts_details:
  "(name, dets) \<in> set (pattern_alerts now evs) \<Longrightarrow>
     (name = ''mass_file_operations'' \<longrightarrow>
        map_of dets ''severity'' = Some (JStr ''high'')
        \<and> map_of dets ''created'' = Some (JInt (int (count_kind Created (last_minute now evs))))
        \<and> map_of dets ''modified'' = Some (JInt (int (count_kind Modified (last_minute now evs))))
        \<and> map_of dets ''moved'' = Some (JInt (int (count_kind Moved (last_minute now evs))))
        \<and> map_of dets ''deleted'' = Some (JInt (int (count_kind Deleted (last_minute now evs)))))
   \<and> (name = ''mass_renames'' \<longrightarrow>
        map_of dets ''severity'' = Some (JStr ''high'')
        \<and> map_of dets ''count'' = Some (JInt (int (count_kind Moved (last_minute now evs)))))
   \<and> (name = ''suspicious_extensions'' \<longrightarrow>
        map_of dets ''severity'' = Some (JStr ''medium'')
        \<and> map_of dets ''count'' =
            Some (JInt (int (length (filter is_suspicious_extension (last_minute now evs))))))
   \<and> (name = ''encryption_patterns'' \<longrightarrow>
        map_of dets ''severity'' = Some (JStr ''critical'')
        \<and> map_of dets ''count'' =
            Some (JInt (int (length (filter is_encryption_pattern (last_minute now evs)))))
        \<and> map_of dets ''files'' =
            Some (JList (map (\<lambda>e. JStr (src_path e))
                           (filter is_encryption_pattern (last_minute now evs)))))
   \<and> (name = ''rapid_modifications'' \<longrightarrow>
        map_of dets ''severity'' = Some (JStr ''high'')
        \<and> map_of dets ''count'' = Some (JInt (int (count_kind Modified (last_minute now evs))))
        \<and> map_of dets ''files'' =
            Some (JList (map (\<lambda>e. JStr (src_path e))
                           (take 10 (filter (\<lambda>e. ev_type e = Modified) (last_minute now evs))))))"
  by (auto simp: pattern_alerts_def Let_def count_kind_def split: if_splits)


lemma alert_events_fields:
  "map event_type (alert_events now n as) = replicate (length as) ''ransomware_detection''
   \<and> map details (alert_events now n as) = map (\<lambda>a. Some (snd a)) as
   \<and> map severity (alert_events now n as)
       = map (\<lambda>a. case map_of (snd a) ''severity'' of Some (JStr v) \<Rightarrow> v | _ \<Rightarrow> []) as"
  by (induction as arbitrary: n) simp_all

lemma process_file_event_accepted:
  "accepted cfg ignored size_on_disk \<Longrightarrow>
     process_file_event cfg t t_scan ignored size_on_disk det kind src dest =
       check_ransomware_patterns t_scan
         (det\<lparr>recent_events := filter (\<lambda>e. epoch t - ev_timestamp e < 300)
                 (recent_events det @ [make_event_data cfg t kind src dest])\<rparr>)"
  by (auto simp: accepted_def process_file_event_def Let_def split: option.splits)

text \<open>
  C5, amended. For every state of the ring, after an accepted event is appended (and
  events older than 300 s are dropped), the scan over the events of the last 60 seconds
  fires \<open>mass_file_operations\<close> (high) iff the events number more than 50,
  \<open>mass_renames\<close> (high) iff the move events more than 30, \<open>suspicious_extensions\<close>
  (medium) iff the suspicious-extension events more than 10, \<open>encryption_patterns\<close>
  (critical) iff the encryption-named events more than 5, and \<open>rapid_modifications\<close>
  (high) iff the modify events more than 20. Each firing appends exactly one
  SecurityEvent with \<open>event_type = ransomware_detection\<close>, the detector's severity and the
  detector's \<open>details\<close>, which carry the raw counts; \<open>rapid_modifications\<close> carries the paths
  of the first 10 modified files, and \<open>encryption_patterns\<close> the paths of all
  encryption-named files of the window, not a truncated list.
\<close>

theorem scan_after_append_fires_detectors:
  assumes "accepted cfg ignored size_on_disk"
  shows
   "(let det' = process_file_event cfg t t_scan ignored size_on_disk det kind src dest;
         W = last_minute (epoch t_scan) (recent_events det');
         A = pattern_alerts (epoch t_scan) (recent_events det');
         new_events = drop (length (security_events (det_db det))) (security_events (det_db det'))
     in recent_events det' = filter (\<lambda>e. epoch t - ev_timestamp e < 300)
                               (recent_events det @ [make_event_data cfg t kind src dest])
      \<and> map fst A =
          (if length W > 50 then [''mass_file_operations''] else []) @
          (if count_kind Moved W > 30 then [''mass_renames''] else []) @
          (if length (filter is_suspicious_extension W) > 10 then [''suspicious_extensions''] else []) @
          (if length (filter is_encryption_pattern W) > 5 then [''encryption_patterns''] else []) @
          (if count_kind Modified W > 20 then [''rapid_modifications''] else [])
      \<and> take (length (security_events (det_db det))) (security_events (det_db det'))
          = security_events (det_db det)
      \<and> map event_type new_events = replicate (length A) ''ransomware_detection''
      \<and> map details new_events = map (\<lambda>a. Some (snd a)) A
      \<and> map (\<lambda>e. Some (JStr (severity e))) new_events = map (\<lambda>a. map_of (snd a) ''severity'') A
      \<and> (\<forall>dets. (''mass_file_operations'', dets) \<in> set A \<longrightarrow>
            map_of dets ''severity'' = Some (JStr ''high'')
            \<and> map_of dets ''created'' = Some (JInt (int (count_kind Created W)))
            \<and> map_of dets ''modified'' = Some (JInt (int (count_kind Modified W)))
            \<and> map_of dets ''moved'' = Some (JInt (int (count_kind Moved W)))
            \<and> map_of dets ''deleted'' = Some (JInt (int (count_kind Deleted W))))
      \<and> (\<forall>dets. (''mass_renames'', dets) \<in> set A \<longrightarrow>
            map_of dets ''severity'' = Some (JStr ''high'')
            \<and> map_of dets ''count'' = Some (JInt (int (count_kind Moved W))))
      \<and> (\<forall>dets. (''suspicious_extensions'', dets) \<in> set A \<longrightarrow>
            map_of dets ''severity'' = Some (JStr ''medium'')
            \<and> map_of dets ''count'' = Some (JInt (int (length (filter is_suspicious_extension W)))))
      \<and> (\<forall>dets. (''encryption_patterns'', dets) \<in> set A \<longrightarrow>
            map_of dets ''severity'' = Some (JStr ''critical'')
            \<and> map_of dets ''count'' = Some (JInt (int (length (filter is_encryption_pattern W))))
            \<and> map_of dets ''files'' =
                Some (JList (map (\<lambda>e. JStr (src_path e)) (filter is_encryption_pattern W))))
      \<and> (\<forall>dets. (''rapid_modifications'', dets) \<in> set A \<longrightarrow>
            map_of dets ''severity'' = Some (JStr ''high'')
            \<and> map_of dets ''count'' = Some (JInt (int (count_kind Modified W)))
            \<and> map_of dets ''files'' =
                Some (JList (map (\<lambda>e. JStr (src_path e))
                               (take 10 (filter (\<lambda>e. ev_type e = Modified) W))))))"
proof -
  let ?ring = "filter (\<lambda>e. epoch t - ev_timestamp e < 300)
                 (recent_events det @ [make_event_data cfg t kind src dest])"
  let ?det' = "process_file_event cfg t t_scan ignored size_on_disk det kind src dest"
  let ?A = "pattern_alerts (epoch t_scan) ?ring"
  have eq: "?det' = check_ransomware_patterns t_scan (det\<lparr>recent_events := ?ring\<rparr>)"
    by (rule process_file_event_accepted[OF assms])
  have ring: "recent_events ?det' = ?ring"
    and se: "security_events (det_db ?det') = security_events (det_db det)
               @ alert_events (iso t_scan) (security_events_seq (det_db det)) ?A"
    using check_rows[of t_scan "det\<lparr>recent_events := ?ring\<rparr>"] by (simp_all add: eq)
  have sev: "map (\<lambda>e. Some (JStr (severity e)))
               (alert_events (iso t_scan) (security_events_seq (det_db det)) ?A)
             = map (\<lambda>a. map_of (snd a) ''severity'') ?A"
  proof -
    have "\<forall>a \<in> set ?A. Some (JStr (case map_of (snd a) ''severity'' of Some (JStr v) \<Rightarrow> v | _ \<Rightarrow> []))
        = map_of (snd a) ''severity''"
      using pattern_alerts_keys[of "epoch t_scan" ?ring] by fastforce
    then have "map (\<lambda>a. Some (JStr (case map_of (snd a) ''severity'' of Some (JStr v) \<Rightarrow> v | _ \<Rightarrow> []))) ?A
        = map (\<lambda>a. map_of (snd a) ''severity'') ?A"
      by simp
    moreover have "map (\<lambda>e. Some (JStr (severity e)))
               (alert_events (iso t_scan) (security_events_seq (det_db det)) ?A)
        = map (\<lambda>v. Some (JStr v)) (map severity
               (alert_events (iso t_scan) (security_events_seq (det_db det)) ?A))"
      by simp
    ultimately show ?thesis
      by (simp add: alert_events_fields comp_def)
  qed
  show ?thesis
    unfolding Let_def ring se
    using pattern_alerts_details[of _ _ "epoch t_scan" ?ring] sev
    by (simp add: pattern_alerts_names alert_events_fields)
qed


text \<open>
  C5, as stated, fails on the file list of \<open>encryption_patterns\<close>: after the 21st
  modification of an encryption-named file within a minute, the scan writes the
  \<open>encryption_patterns\<close> event (critical) with all 21 paths under \<open>files\<close>, next to the
  \<open>rapid_modifications\<close> event (high) with its list cut to 10.
\<close>

theorem encryption_file_list_not_truncated:
  "map (\<lambda>e. (severity e, files_entries (the (details e))))
     (security_events (det_db (process_file_event watcher_cfg at_1010 at_1010 False None
         busy_detector Modified ''C:/docs/Report.LOCKED'' None)))
   = [(''critical'', 21), (''high'', 10)]"
  by code_simp

lemma renaming_scan:
  "map fst (pattern_alerts (epoch at_1010)
       (recent_events (process_file_event watcher_cfg at_1010 at_1010 False None
         renaming_detector Moved ''C:/docs/a.txt'' (Some ''C:/docs/b.txt'')))) = [''mass_renames'']
   \<and> map (\<lambda>e. (event_type e, severity e, map_of (the (details e)) ''count''))
        (security_events (det_db (process_file_event watcher_cfg at_1010 at_1010 False None
         renaming_detector Moved ''C:/docs/a.txt'' (Some ''C:/docs/b.txt''))))
      = [(''ransomware_detection'', ''high'', Some (JInt 31))]"
  by code_simp

text \<open>
  C5 amended, at a concrete input: the 31st rename within a minute fires \<open>mass_renames\<close>
  alone, and one \<open>ransomware_detection\<close> event of severity high with count 31 is written.
\<close>

theorem scan_after_append_fires_detectors_witness:
  "map fst (pattern_alerts (epoch at_1010)
       (recent_events (process_file_event watcher_cfg at_1010 at_1010 False None
         renaming_detector Moved ''C:/docs/a.txt'' (Some ''C:/docs/b.txt'')))) = [''mass_renames'']
   \<and> map (\<lambda>e. (event_type e, severity e, map_of (the (details e)) ''count''))
        (security_events (det_db (process_file_event watcher_cfg at_1010 at_1010 False None
         renaming_detector Moved ''C:/docs/a.txt'' (Some ''C:/docs/b.txt''))))
      = [(''ransomware_detection'', ''high'', Some (JInt 31))]
   \<and> map event_type (drop (length (security_events (det_db renaming_detector)))
        (security_events (det_db (process_file_event watcher_cfg at_1010 at_1010 False None
         renaming_detector Moved ''C:/docs/a.txt'' (Some ''C:/docs/b.txt'')))))
      = [''ransomware_detection'']"
proof -
  let ?det' = "process_file_event watcher_cfg at_1010 at_1010 False None
         renaming_detector Moved ''C:/docs/a.txt'' (Some ''C:/docs/b.txt'')"
  have h: "accepted watcher_cfg False None"
    by (simp add: accepted_def)
  note scan = scan_after_append_fires_detectors[OF h, of at_1010 at_1010 renaming_detector Moved
      "''C:/docs/a.txt''" "Some ''C:/docs/b.txt''", unfolded Let_def]
  have types: "map event_type (drop (length (security_events (det_db renaming_detector)))
        (security_events (det_db ?det')))
      = replicate (length (pattern_alerts (epoch at_1010) (recent_events ?det')))
          ''ransomware_detection''"
    by (rule scan[THEN conjunct2, THEN conjunct2, THEN conjunct2, THEN conjunct1])
  have names: "map fst (pattern_alerts (epoch at_1010) (recent_events ?det')) = [''mass_renames'']"
    by (rule renaming_scan[THEN conjunct1])
  have "length (map fst (pattern_alerts (epoch at_1010) (recent_events ?det'))) = 1"
    by (simp only: names list.size One_nat_def)
  then have one: "length (pattern_alerts (epoch at_1010) (recent_events ?det')) = 1"
    by (simp only: length_map)
  have "map event_type (drop (length (security_events (det_db renaming_detector)))
        (security_events (det_db ?det'))) = [''ransomware_detection'']"
    unfolding types one by simp
  then show ?thesis
    using renaming_scan by blast
qed

section \<open>The backup engine\<close>

lemma checksum_not_in_schema: "\<not> set backup_insert_columns \<subseteq> set backup_records_schema"
  by (simp add: backup_insert_columns_def backup_records_schema_def)

lemma record_backup_shipped_schema:
  "backup_records d = Some tbl \<Longrightarrow> columns tbl = backup_records_schema \<Longrightarrow>
     record_backup now d bid btype sps bpath sz descr ck = None"
  using checksum_not_in_schema by (simp add: record_backup_def)

text \<open>
  C3. On a store whose \<open>backup_records\<close> table has the columns that \<open>_create_tables\<close>
  gives it, \<open>create_backup\<close> returns \<open>None\<close> for every input: the INSERT of
  \<open>_record_backup\<close> names the columns \<open>checksum\<close> and \<open>description\<close>, which the table does
  not have, and the exception ends in \<open>return None\<close>. No backup record is ever written,
  so there is nothing to restore and the round trip of the claim is not reached.
\<close>

theorem create_backup_fails_on_shipped_schema:
  assumes "backup_records (bm_db st) = Some tbl" and "columns tbl = backup_records_schema"
  shows "fst (create_backup env bid stamp now st sps btype descr) = None"
  using record_backup_shipped_schema[OF assms]
  by (simp add: create_backup_def Let_def split: option.splits)

lemma shipped_backup_evaluated:
  "fst (create_backup demo_backup_env ''backup_1704103200_9f2c11aa'' ''20240101_100000''
          ''2024-01-01T10:00:00'' shipped_state [[''home'', ''notes.txt'']] ''test'' ''Test backup'')
     = None
   \<and> read_file (bm_fs (snd (create_backup demo_backup_env ''backup_1704103200_9f2c11aa''
          ''20240101_100000'' ''2024-01-01T10:00:00'' shipped_state [[''home'', ''notes.txt'']]
          ''test'' ''Test backup''))) artifact_path = Some ''tnetnoc pukcab tseT''
   \<and> fst (restore_backup demo_backup_env ''2024-01-01T10:00:01''
          (snd (create_backup demo_backup_env ''backup_1704103200_9f2c11aa'' ''20240101_100000''
             ''2024-01-01T10:00:00'' shipped_state [[''home'', ''notes.txt'']] ''test'' ''Test backup''))
          ''backup_1704103200_9f2c11aa'' None) = False"
  by code_simp

text \<open>
  On a store whose table does have the two columns, the same backup is recorded and
  its restore gives the file back, byte for byte.
\<close>

lemma legacy_schema_round_trip:
  "fst (create_backup demo_backup_env ''backup_1704103200_9f2c11aa'' ''20240101_100000''
          ''2024-01-01T10:00:00'' legacy_state [[''home'', ''notes.txt'']] ''test'' ''Test backup'')
     = Some ''backup_1704103200_9f2c11aa''
   \<and> fst (restore_backup demo_backup_env ''2024-01-01T10:00:01'' backed_up_state
          ''backup_1704103200_9f2c11aa'' None) = True
   \<and> read_file (bm_fs (snd (restore_backup demo_backup_env ''2024-01-01T10:00:01'' backed_up_state
          ''backup_1704103200_9f2c11aa'' None))) [''restore'', ''notes.txt'']
     = Some ''Test backup content''"
  by code_simp

text \<open>
  C3, at the failing input: the store as \<open>Database.initialize\<close> creates it and the file
  \<open>notes.txt\<close>. \<open>create_backup\<close> returns \<open>None\<close>, leaving the encrypted artifact on disk
  without a record, and a restore under the generated id returns False.
\<close>

theorem create_backup_fails_on_shipped_schema_witness:
  "fst (create_backup demo_backup_env ''backup_1704103200_9f2c11aa'' ''20240101_100000''
          ''2024-01-01T10:00:00'' shipped_state [[''home'', ''notes.txt'']] ''test'' ''Test backup'')
     = None
   \<and> read_file (bm_fs (snd (create_backup demo_backup_env ''backup_1704103200_9f2c11aa''
          ''20240101_100000'' ''2024-01-01T10:00:00'' shipped_state [[''home'', ''notes.txt'']]
          ''test'' ''Test backup''))) artifact_path = Some ''tnetnoc pukcab tseT''
   \<and> fst (restore_backup demo_backup_env ''2024-01-01T10:00:01''
          (snd (create_backup demo_backup_env ''backup_1704103200_9f2c11aa'' ''20240101_100000''
             ''2024-01-01T10:00:00'' shipped_state [[''home'', ''notes.txt'']] ''test'' ''Test backup''))
          ''backup_1704103200_9f2c11aa'' None) = False"
proof -
  have h1: "backup_records (bm_db shipped_state)
      = Some \<lparr>columns = backup_records_schema, table_rows = []\<rparr>"
    by (simp add: shipped_state_def initialize_def create_tables_def empty_db_def)
  have h2: "columns \<lparr>columns = backup_records_schema, table_rows = []\<rparr> = backup_records_schema"
    by simp
  show ?thesis
    using create_backup_fails_on_shipped_schema[OF h1 h2, of demo_backup_env
        "''backup_1704103200_9f2c11aa''" "''20240101_100000''" "''2024-01-01T10:00:00''"
        "[[''home'', ''notes.txt'']]" "''test''" "''Test backup''"]
      shipped_backup_evaluated
    by simp
qed

text \<open>
  C4. For every backup record with a stored (non-empty) checksum whose artifact is on
  disk: if the SHA-256 of the artifact differs from the stored checksum,
  \<open>restore_backup\<close> returns False with the file system and the store exactly as they
  were: nothing is decrypted to the temporary file, no restore directory is created, no
  file is extracted, no audit row is written.
\<close>

theorem restore_refuses_on_checksum_mismatch:
  assumes "get_backup_record (bm_db st) backup_id = Some backup_record"
      and "map_of backup_record ''backup_path'' = Some (SPath p)"
      and "read_file (bm_fs st) p = Some artifact"
      and "map_of backup_record ''checksum'' = Some (SText c)"
      and "c \<noteq> []"
      and "sha256_hex env artifact \<noteq> c"
  shows "restore_backup env now st backup_id restore_path = (False, st)"
  using assms by (simp add: restore_backup_def)

lemma corrupted_state_facts:
  "get_backup_record (bm_db corrupted_state) ''backup_1704103200_9f2c11aa'' =
     Some [(''id'', SInt 1), (''backup_id'', SText ''backup_1704103200_9f2c11aa''),
           (''backup_type'', SText ''test''),
           (''source_paths'', SPaths [[''home'', ''notes.txt'']]),
           (''backup_path'', SPath artifact_path),
           (''size_bytes'', SInt 19), (''encrypted'', SBool True),
           (''created_at'', SText ''2024-01-01T10:00:00''),
           (''uploaded'', SBool False), (''upload_url'', SNull),
           (''checksum'', SText ''19tnet''),
           (''description'', SText ''Test backup'')]
   \<and> read_file (bm_fs corrupted_state) artifact_path = Some ''Xnetnoc pukcab tseT''
   \<and> sha256_hex demo_backup_env ''Xnetnoc pukcab tseT'' = ''19Xnet''
   \<and> read_file (bm_fs backed_up_state) artifact_path = Some ''tnetnoc pukcab tseT''
   \<and> lookup (bm_fs corrupted_state) [''restore''] = None"
  by code_simp

text \<open>
  C4, at a concrete input: a backup of \<open>notes.txt\<close> on the legacy store, then the first
  byte of the artifact overwritten. The restore is refused and changes nothing; the
  restore of the intact artifact succeeds.
\<close>

theorem restore_refuses_on_checksum_mismatch_witness:
  "restore_backup demo_backup_env ''2024-01-01T10:00:01'' corrupted_state
      ''backup_1704103200_9f2c11aa'' None = (False, corrupted_state)
   \<and> lookup (bm_fs corrupted_state) [''restore''] = None
   \<and> fst (restore_backup demo_backup_env ''2024-01-01T10:00:01'' backed_up_state
          ''backup_1704103200_9f2c11aa'' None) = True"
proof -
  note f = corrupted_state_facts
  have h1: "get_backup_record (bm_db corrupted_state) ''backup_1704103200_9f2c11aa'' =
     Some [(''id'', SInt 1), (''backup_id'', SText ''backup_1704103200_9f2c11aa''),
           (''backup_type'', SText ''test''),
           (''source_paths'', SPaths [[''home'', ''notes.txt'']]),
           (''backup_path'', SPath artifact_path),
           (''size_bytes'', SInt 19), (''encrypted'', SBool True),
           (''created_at'', SText ''2024-01-01T10:00:00''),
           (''uploaded'', SBool False), (''upload_url'', SNull),
           (''checksum'', SText ''19tnet''),
           (''description'', SText ''Test backup'')]"
    using f by blast
  have h3: "read_file (bm_fs corrupted_state) artifact_path = Some ''Xnetnoc pukcab tseT''"
    using f by blast
  have h6: "sha256_hex demo_backup_env ''Xnetnoc pukcab tseT'' \<noteq> ''19tnet''"
    using f by simp
  have "restore_backup demo_backup_env ''2024-01-01T10:00:01'' corrupted_state
      ''backup_1704103200_9f2c11aa'' None = (False, corrupted_state)"
    by (rule restore_refuses_on_checksum_mismatch[OF h1 _ h3 _ _ h6]) simp_all
  then show ?thesis
    using f legacy_schema_round_trip by simp
qed


end
